theory Spec2Isabelle
  imports Main
begin

section \<open>Python values of a menu description\<close>

text \<open>
  The menu description handed to \<^verbatim>\<open>_normalise_menu\<close> is loosely typed JSON-like data:
  lists of dictionaries whose values are strings, booleans, numbers, \<^verbatim>\<open>None\<close> or nested
  lists. The normaliser branches on the truth value of these objects (\<^verbatim>\<open>a or b\<close>,
  \<^verbatim>\<open>not child_data\<close>, \<^verbatim>\<open>bool(...)\<close>), so the values are modelled with Python's truthiness.
  A dictionary is an association list with string keys, looked up with \<open>map_of\<close>;
  floats are left out.
\<close>

datatype pyval =
    PNone
  | PBool bool
  | PInt int
  | PStr string
  | PList "pyval list"
  | PDict "(string \<times> pyval) list"

text \<open>
  The exceptions of class \<^verbatim>\<open>Exception\<close> the modelled code can meet, and beside them
  everything a \<^verbatim>\<open>raise\<close> can carry: an exception of that class, or one of the exits
  that derive from \<^verbatim>\<open>BaseException\<close> only, which \<^verbatim>\<open>except Exception\<close> does not catch.
\<close>

datatype exn =
    TypeError
  | AttributeError
  | Exception string

datatype raised =
    Exc exn
  | SystemExit
  | KeyboardInterrupt

fun truthy :: "pyval \<Rightarrow> bool" where
  "truthy PNone = False"
| "truthy (PBool b) = b"
| "truthy (PInt n) = (n \<noteq> 0)"
| "truthy (PStr s) = (s \<noteq> [])"
| "truthy (PList xs) = (xs \<noteq> [])"
| "truthy (PDict d) = (d \<noteq> [])"

text \<open>\<^verbatim>\<open>a or b\<close>: the left operand when it is truthy, the right one otherwise.\<close>

definition py_or :: "pyval \<Rightarrow> pyval \<Rightarrow> pyval" where
  "py_or a b = (if truthy a then a else b)"

text \<open>\<^verbatim>\<open>d.get(k)\<close> and \<^verbatim>\<open>d.get(k, default)\<close>.\<close>

definition dict_get_default :: "(string \<times> pyval) list \<Rightarrow> string \<Rightarrow> pyval \<Rightarrow> pyval" where
  "dict_get_default d k dflt = (case map_of d k of None \<Rightarrow> dflt | Some v \<Rightarrow> v)"

definition dict_get :: "(string \<times> pyval) list \<Rightarrow> string \<Rightarrow> pyval" where
  "dict_get d k = dict_get_default d k PNone"

text \<open>
  \<^verbatim>\<open>for item in v\<close>: a list yields its elements, a string its one-character strings, a
  dictionary its keys; \<^verbatim>\<open>None\<close>, booleans and integers are not iterable.
\<close>

fun py_iter :: "pyval \<Rightarrow> exn + pyval list" where
  "py_iter (PList xs) = Inr xs"
| "py_iter (PStr s) = Inr (map (\<lambda>c. PStr [c]) s)"
| "py_iter (PDict d) = Inr (map (\<lambda>kv. PStr (fst kv)) d)"
| "py_iter PNone = Inl TypeError"
| "py_iter (PBool b) = Inl TypeError"
| "py_iter (PInt n) = Inl TypeError"

section \<open>Menu nodes\<close>

text \<open>
  The dataclass \<^verbatim>\<open>MenuNode\<close>. The field \<^verbatim>\<open>text\<close> is called \<open>label_text\<close> here. Its
  annotations (\<^verbatim>\<open>str\<close>, \<^verbatim>\<open>Optional[str]\<close>) are not enforced at run time: the normaliser
  stores whatever object the description holds, so \<open>label_text\<close>, \<open>action\<close> and
  \<open>icon\<close> are Python values.
\<close>

datatype MenuNode =
  MenuNode
    (label_text: pyval)
    (action: pyval)
    (disabled: bool)
    (checked: bool)
    (children: "MenuNode list")
    (icon: pyval)

section \<open>The menu normaliser\<close>

text \<open>
  \<^verbatim>\<open>_normalise_menu\<close>, with its loop as \<open>normalise_loop\<close> and the loop body as
  \<open>normalise_item\<close>. The body starts with \<^verbatim>\<open>item.get("text")\<close>, before any
  \<^verbatim>\<open>isinstance\<close> test, so an item that is not a dictionary raises AttributeError. The
  keyword arguments of \<^verbatim>\<open>MenuNode(...)\<close> are evaluated in order; only the last one, the
  recursive call, can raise.
\<close>

fun msize :: "pyval \<Rightarrow> nat" where
  "msize (PList xs) = sum_list (map msize xs)"
| "msize (PDict d) = Suc (sum_list (map (\<lambda>kv. msize (snd kv)) d))"
| "msize _ = 0"

lemma msize_py_iter: "py_iter v = Inr xs \<Longrightarrow> sum_list (map msize xs) \<le> msize v"
  by (cases v) (auto simp: comp_def)

lemma msize_py_or_Nil: "msize (py_or v (PList [])) \<le> msize v"
  by (simp add: py_or_def)

lemma msize_map_of: "map_of d k = Some v \<Longrightarrow> msize v \<le> sum_list (map (\<lambda>kv. msize (snd kv)) d)"
  by (induction d) (auto split: if_splits)

lemma msize_dict_get: "msize (dict_get d k) < msize (PDict d)"
  by (auto simp: dict_get_def dict_get_default_def less_Suc_eq_le
      split: option.splits dest: msize_map_of)

function normalise_menu :: "pyval \<Rightarrow> exn + MenuNode list"
  and normalise_loop :: "pyval list \<Rightarrow> exn + MenuNode list"
  and normalise_item :: "pyval \<Rightarrow> exn + MenuNode"
where
  "normalise_menu items =
     (case py_iter (py_or items (PList [])) of
        Inl e \<Rightarrow> Inl e
      | Inr xs \<Rightarrow> normalise_loop xs)"
| "normalise_loop [] = Inr []"
| "normalise_loop (item # rest) =
     (case normalise_item item of
        Inl e \<Rightarrow> Inl e
      | Inr node \<Rightarrow>
          (case normalise_loop rest of
             Inl e \<Rightarrow> Inl e
           | Inr nodes \<Rightarrow> Inr (node # nodes)))"
| "normalise_item (PDict d) =
     (let label =
            py_or (dict_get d ''text'')
              (py_or (dict_get d ''label'')
                (py_or (dict_get d ''title'') (PStr ''Menu item'')));
          child_data = dict_get d ''items'';
          child_data = (if \<not> truthy child_data then dict_get d ''children'' else child_data)
      in case normalise_menu (py_or child_data (PList [])) of
           Inl e \<Rightarrow> Inl e
         | Inr kids \<Rightarrow>
             Inr (MenuNode label
                    (dict_get d ''action'')
                    (truthy (dict_get_default d ''disabled'' (PBool False)))
                    (truthy (dict_get_default d ''checked'' (PBool False)))
                    kids
                    (dict_get d ''icon'')))"
| "normalise_item PNone = Inl AttributeError"
| "normalise_item (PBool b) = Inl AttributeError"
| "normalise_item (PInt n) = Inl AttributeError"
| "normalise_item (PStr s) = Inl AttributeError"
| "normalise_item (PList xs) = Inl AttributeError"
  by pat_completeness auto
termination
proof (relation "inv_image (less_than <*lex*> less_than <*lex*> less_than)
    (\<lambda>a. case a of
       Inl v \<Rightarrow> (msize v, 2::nat, 0::nat)
     | Inr (Inl xs) \<Rightarrow> (sum_list (map msize xs), 1, length xs)
     | Inr (Inr x) \<Rightarrow> (msize x, 0, 0))", goal_cases)
  case 1
  show ?case by (intro wf_inv_image wf_lex_prod wf_less_than)
next
  case (2 items xs)
  have "sum_list (map msize xs) \<le> msize (py_or items (PList []))"
    using 2 by (rule msize_py_iter)
  also have "\<dots> \<le> msize items" by (rule msize_py_or_Nil)
  finally show ?case by (auto simp: le_less)
next
  case (3 item rest)
  show ?case by (auto simp: le_less)
next
  case (4 item rest node)
  show ?case by (auto simp: le_less)
next
  case (5 d label cd cd')
  have "msize (py_or cd' (PList [])) \<le> msize cd'" by (rule msize_py_or_Nil)
  moreover have "msize cd' < msize (PDict d)"
    using 5 msize_dict_get [of d] by (auto split: if_splits)
  ultimately show ?case by simp
qed

section \<open>Re-emitting a menu\<close>

text \<open>
  \<^verbatim>\<open>menu_to_dict\<close>: \<open>node_data\<close> is the dictionary \<^verbatim>\<open>data\<close> built for one node, with
  the key \<^verbatim>\<open>items\<close> added only when the node has children.
\<close>

fun menu_to_dict :: "MenuNode list \<Rightarrow> pyval list"
  and node_data :: "MenuNode \<Rightarrow> pyval"
where
  "menu_to_dict [] = []"
| "menu_to_dict (node # rest) = node_data node # menu_to_dict rest"
| "node_data (MenuNode t a dis chk kids ic) =
     PDict ([(''text'', t), (''action'', a), (''disabled'', PBool dis), (''checked'', PBool chk)]
            @ (if kids \<noteq> [] then [(''items'', PList (menu_to_dict kids))] else []))"

section \<open>The action registry\<close>

text \<open>
  A callback either returns or raises: an exception of class \<^verbatim>\<open>Exception\<close>, or an exit
  such as the \<^verbatim>\<open>SystemExit\<close> of \<^verbatim>\<open>sys.exit()\<close>. What else it does is outside the
  repository and is recorded as one event of a trace.
  \<open>SelfLambda cb\<close> is the function \<^verbatim>\<open>lambda *_: cb(self)\<close> that \<^verbatim>\<open>TrayApp.__init__\<close>
  registers for its \<^verbatim>\<open>on_open\<close> and \<^verbatim>\<open>on_exit\<close> arguments.
\<close>

datatype outcome = Returns | Raises raised

datatype tray_callback = TrayCallback (tc_id: nat) (tc_run: outcome)

datatype callback =
    Fn (fn_id: nat) (fn_run: "pyval \<Rightarrow> outcome")
  | SelfLambda tray_callback

fun cb_outcome :: "callback \<Rightarrow> pyval \<Rightarrow> outcome" where
  "cb_outcome (Fn i run) payload = run payload"
| "cb_outcome (SelfLambda cb) payload = tc_run cb"

text \<open>The second argument of \<^verbatim>\<open>register_action\<close>: a callable, or any other object.\<close>

datatype pyobj = Callable callback | NotCallable pyval

text \<open>The module-level dictionary \<^verbatim>\<open>_ACTIONS\<close>, passed explicitly.\<close>

type_synonym registry = "string \<Rightarrow> callback option"

fun register_action :: "string \<Rightarrow> pyobj \<Rightarrow> registry \<Rightarrow> registry" where
  "register_action name (Callable fn) ACTIONS =
     (if name = [] then ACTIONS else ACTIONS(name \<mapsto> fn))"
| "register_action name (NotCallable v) ACTIONS = ACTIONS"

definition registered_actions :: "registry \<Rightarrow> registry" where
  "registered_actions ACTIONS = ACTIONS"

text \<open>
  \<^verbatim>\<open>_ACTIONS.get(key)\<close> for an arbitrary key object: a list or a dictionary is unhashable
  and raises TypeError; any other key that is not a string is simply not found.
\<close>

fun actions_get :: "registry \<Rightarrow> pyval \<Rightarrow> exn + callback option" where
  "actions_get ACTIONS (PStr s) = Inr (ACTIONS s)"
| "actions_get ACTIONS (PList xs) = Inl TypeError"
| "actions_get ACTIONS (PDict d) = Inl TypeError"
| "actions_get ACTIONS PNone = Inr None"
| "actions_get ACTIONS (PBool b) = Inr None"
| "actions_get ACTIONS (PInt n) = Inr None"

section \<open>Effects: the trace of a dispatch\<close>

text \<open>
  An extension event is an object whose attributes are read with
  \<^verbatim>\<open>getattr(evt, name, None)\<close>; a missing attribute is \<open>None\<close> here.
\<close>

record evt =
  evt_extension_name :: "pyval option"
  evt_name :: "pyval option"
  evt_action :: "pyval option"
  evt_data :: "pyval option"

definition getattr_or_none :: "pyval option \<Rightarrow> pyval" where
  "getattr_or_none attr = (case attr of None \<Rightarrow> PNone | Some v \<Rightarrow> v)"

text \<open>The handler found in \<^verbatim>\<open>page.on_extension_event\<close> before the bridge installs its own.\<close>

datatype handler = Handler (h_id: nat) (h_run: "evt \<Rightarrow> outcome")

text \<open>The three messages the dispatch paths print, with the values they format.\<close>

datatype log_line =
    NoHandler pyval
  | ActionFailed pyval exn
  | ExtHandlerFailed pyval exn

datatype event =
    Called callback pyval
  | Forwarded handler evt
  | Printed log_line

text \<open>
  A procedure takes the trace so far and gives what it raised, if anything, with the
  trace extended by what it did.
\<close>

definition invoke :: "callback \<Rightarrow> pyval \<Rightarrow> event list \<Rightarrow> raised option \<times> event list" where
  "invoke fn payload trace =
     (case cb_outcome fn payload of
        Returns \<Rightarrow> (None, trace @ [Called fn payload])
      | Raises r \<Rightarrow> (Some r, trace @ [Called fn payload]))"

definition invoke_handler ::
  "handler \<Rightarrow> evt \<Rightarrow> event list \<Rightarrow> raised option \<times> event list" where
  "invoke_handler h e trace =
     (case h_run h e of
        Returns \<Rightarrow> (None, trace @ [Forwarded h e])
      | Raises r \<Rightarrow> (Some r, trace @ [Forwarded h e]))"

text \<open>
  \<^verbatim>\<open>try: body\<close>, \<^verbatim>\<open>except Exception as exc: handler\<close>, for a handler that only prints:
  an exception of class \<^verbatim>\<open>Exception\<close> raised by the body is caught and the handler's
  lines are added to the trace; anything else the body raised goes on to the caller.
\<close>

fun except_Exception ::
  "raised option \<times> event list \<Rightarrow> (exn \<Rightarrow> event list) \<Rightarrow> raised option \<times> event list" where
  "except_Exception (Some (Exc exc), t) handler = (None, t @ handler exc)"
| "except_Exception (Some SystemExit, t) handler = (Some SystemExit, t)"
| "except_Exception (Some KeyboardInterrupt, t) handler = (Some KeyboardInterrupt, t)"
| "except_Exception (None, t) handler = (None, t)"

section \<open>The native menu builder\<close>

text \<open>
  A \<^verbatim>\<open>pystray.MenuItem\<close> as \<^verbatim>\<open>_build_pystray_menu\<close> constructs it: the text, the action
  (a submenu, or the closure \<^verbatim>\<open>_cb\<close>), and the keyword arguments \<^verbatim>\<open>enabled\<close>,
  \<^verbatim>\<open>checked\<close> and \<^verbatim>\<open>default\<close>. The closure \<^verbatim>\<open>_cb\<close> is given by the two values its
  default arguments bind when it is defined: \<^verbatim>\<open>fn=callback\<close> and \<^verbatim>\<open>name=node.action\<close>.

  The argument \<^verbatim>\<open>checked\<close> is \<^verbatim>\<open>None\<close> or the function \<^verbatim>\<open>lambda _i: node.checked\<close>.
  That function binds nothing when it is defined: it reads the variable \<^verbatim>\<open>node\<close> of the
  enclosing call when the native library asks for the state, which is after the loop
  has ended, and \<^verbatim>\<open>node\<close> then holds the last element of \<^verbatim>\<open>nodes\<close>. No code of the
  repository assigns to a field of a \<^verbatim>\<open>MenuNode\<close>, so the function is given by the
  boolean it returns, \<open>checked (last nodes)\<close>.
\<close>

datatype menu_item =
  MenuItem
    (item_text: pyval)
    (item_action: item_action)
    (enabled: bool)
    (checked_cb: "bool option")
    (is_default: bool)
and item_action =
    Submenu "menu_item list"
  | ActionCb "callback option" pyval

fun build_pystray_menu :: "registry \<Rightarrow> MenuNode list \<Rightarrow> exn + menu_item list"
  and build_loop :: "registry \<Rightarrow> MenuNode list \<Rightarrow> MenuNode list \<Rightarrow> exn + menu_item list"
where
  "build_pystray_menu ACTIONS nodes = build_loop ACTIONS nodes nodes"
| "build_loop ACTIONS nodes [] = Inr []"
| "build_loop ACTIONS nodes (MenuNode t a dis chk kids ic # rest) =
     (if kids \<noteq> [] then
        (case build_pystray_menu ACTIONS kids of
           Inl e \<Rightarrow> Inl e
         | Inr submenu \<Rightarrow>
             (case build_loop ACTIONS nodes rest of
                Inl e \<Rightarrow> Inl e
              | Inr menu_items \<Rightarrow>
                  Inr (MenuItem t (Submenu submenu) (\<not> dis) None False # menu_items)))
      else
        (case actions_get ACTIONS (py_or a (PStr [])) of
           Inl e \<Rightarrow> Inl e
         | Inr callback \<Rightarrow>
             (case build_loop ACTIONS nodes rest of
                Inl e \<Rightarrow> Inl e
              | Inr menu_items \<Rightarrow>
                  Inr (MenuItem t (ActionCb callback a) (\<not> dis)
                         (if chk then Some (checked (last nodes)) else None) False
                       # menu_items))))"

text \<open>
  Running the closure \<^verbatim>\<open>_cb\<close>: the \<^verbatim>\<open>try\<close> body calls \<^verbatim>\<open>fn({"action": name})\<close> or
  prints that there is no handler; \<^verbatim>\<open>except Exception\<close> prints the failure.
\<close>

definition run_cb ::
  "callback option \<Rightarrow> pyval \<Rightarrow> event list \<Rightarrow> raised option \<times> event list" where
  "run_cb fn name trace =
     except_Exception
       (case fn of
          Some f \<Rightarrow> invoke f (PDict [(''action'', name)]) trace
        | None \<Rightarrow> (None, trace @ [Printed (NoHandler name)]))
       (\<lambda>exc. [Printed (ActionFailed name exc)])"

text \<open>
  What the native library gets when it reads the \<^verbatim>\<open>checked\<close> property of an item: the
  result of the function passed as \<^verbatim>\<open>checked\<close>, or \<^verbatim>\<open>None\<close> when none was passed.
\<close>

definition checked_state :: "menu_item \<Rightarrow> bool option" where
  "checked_state item = checked_cb item"

section \<open>The extension event handler\<close>

definition EXTENSION_NAME :: string where
  "EXTENSION_NAME = ''tray''"

text \<open>
  \<^verbatim>\<open>_handle_ext\<close>, the closure \<^verbatim>\<open>register_extension\<close> installs. \<open>prev_handler\<close> is
  \<open>None\<close> when the previous value of \<^verbatim>\<open>page.on_extension_event\<close> is not callable.
  \<^verbatim>\<open>json.loads\<close> belongs to the standard library and is a parameter: it gives the decoded
  value, or \<open>None\<close> when it raises.

  The parts of the body are named: \<open>foreign_event\<close> is the condition of its first
  \<^verbatim>\<open>if\<close>, \<open>ext_payload\<close> and \<open>ext_action_name\<close> are the values of its local variables
  \<^verbatim>\<open>payload\<close> and \<^verbatim>\<open>action_name\<close> when the registry is looked up.
\<close>

definition foreign_event :: "evt \<Rightarrow> bool" where
  "foreign_event e =
     (truthy (getattr_or_none (evt_extension_name e))
      \<and> getattr_or_none (evt_extension_name e) \<noteq> PStr EXTENSION_NAME)"

definition ext_payload :: "(string \<Rightarrow> pyval option) \<Rightarrow> evt \<Rightarrow> pyval" where
  "ext_payload json_loads e =
     (let payload = getattr_or_none (evt_data e)
      in case payload of
           PStr s \<Rightarrow> (case json_loads s of Some v \<Rightarrow> v | None \<Rightarrow> payload)
         | _ \<Rightarrow> payload)"

definition ext_action_name :: "(string \<Rightarrow> pyval option) \<Rightarrow> evt \<Rightarrow> pyval" where
  "ext_action_name json_loads e =
     (let action_name = py_or (getattr_or_none (evt_name e)) (getattr_or_none (evt_action e))
      in case ext_payload json_loads e of
           PDict d \<Rightarrow> (if \<not> truthy action_name then dict_get d ''action'' else action_name)
         | _ \<Rightarrow> action_name)"

text \<open>
  The end of the body: \<^verbatim>\<open>if callable(prev_handler)\<close>, then \<^verbatim>\<open>try: prev_handler(evt)\<close>,
  \<^verbatim>\<open>except Exception: pass\<close>.
\<close>

definition forward_swallowing ::
  "handler option \<Rightarrow> evt \<Rightarrow> event list \<Rightarrow> raised option \<times> event list" where
  "forward_swallowing prev_handler e trace =
     (case prev_handler of
        Some h \<Rightarrow> except_Exception (invoke_handler h e trace) (\<lambda>exc. [])
      | None \<Rightarrow> (None, trace))"

definition handle_ext ::
  "(string \<Rightarrow> pyval option) \<Rightarrow> registry \<Rightarrow> handler option \<Rightarrow> evt \<Rightarrow> event list
     \<Rightarrow> raised option \<times> event list" where
  "handle_ext json_loads ACTIONS prev_handler e trace =
     (if foreign_event e then
        (case prev_handler of
           Some h \<Rightarrow> invoke_handler h e trace
         | None \<Rightarrow> (None, trace))
      else
        (let action_name = ext_action_name json_loads e;
             payload = ext_payload json_loads e
         in case actions_get ACTIONS (py_or action_name (PStr [])) of
              Inl exc \<Rightarrow> (Some (Exc exc), trace)
            | Inr fn \<Rightarrow>
                (case (case fn of
                         Some f \<Rightarrow>
                           except_Exception (invoke f payload trace)
                             (\<lambda>exc. [Printed (ExtHandlerFailed action_name exc)])
                       | None \<Rightarrow> (None, trace)) of
                   (Some r, t) \<Rightarrow> (Some r, t)
                 | (None, t) \<Rightarrow> forward_swallowing prev_handler e t)))"

section \<open>The tray session\<close>

text \<open>
  \<^verbatim>\<open>TrayApp\<close>, with the native icon an abstract value of type \<open>'i\<close>. The constructor of
  \<^verbatim>\<open>pystray.Icon\<close> and the method \<^verbatim>\<open>icon.stop()\<close> belong to the native library and are
  parameters: the first may raise, the second may raise and may change the icon, and
  what they raise are the library's own failures, of class \<^verbatim>\<open>Exception\<close>. The
  constructor of \<^verbatim>\<open>TrayApp\<close> changes the registry also when it raises afterwards, so
  it returns the registry beside its result. The name, the title and the image of the
  icon only pass through to the native constructor and are left out.
\<close>

record 'i TrayApp =
  menu_nodes :: "MenuNode list"
  on_open :: tray_callback
  on_exit :: tray_callback
  tray_icon :: 'i

definition trayapp_init ::
  "(menu_item list \<Rightarrow> exn + 'i) \<Rightarrow> tray_callback \<Rightarrow> tray_callback \<Rightarrow> pyval \<Rightarrow> registry
     \<Rightarrow> (exn + 'i TrayApp) \<times> registry" where
  "trayapp_init new_icon open_cb exit_cb menu ACTIONS =
     (case normalise_menu (py_or menu (PList [])) of
        Inl e \<Rightarrow> (Inl e, ACTIONS)
      | Inr nodes \<Rightarrow>
          (let nodes = (if nodes = []
                        then [MenuNode (PStr ''Open'') (PStr ''open'') False False [] PNone,
                              MenuNode (PStr ''Exit'') (PStr ''exit'') False False [] PNone]
                        else nodes);
               ACTIONS = register_action ''open'' (Callable (SelfLambda open_cb)) ACTIONS;
               ACTIONS = register_action ''exit'' (Callable (SelfLambda exit_cb)) ACTIONS
           in case build_pystray_menu ACTIONS nodes of
                Inl e \<Rightarrow> (Inl e, ACTIONS)
              | Inr m \<Rightarrow>
                  (case new_icon m of
                     Inl e \<Rightarrow> (Inl e, ACTIONS)
                   | Inr i \<Rightarrow>
                       (Inr \<lparr>menu_nodes = nodes, on_open = open_cb, on_exit = exit_cb,
                             tray_icon = i\<rparr>,
                        ACTIONS))))"

text \<open>\<^verbatim>\<open>TrayApp.stop\<close>: \<^verbatim>\<open>try: self.icon.stop()\<close>, \<^verbatim>\<open>except Exception: pass\<close>.\<close>

definition stop :: "('i \<Rightarrow> exn option \<times> 'i) \<Rightarrow> 'i TrayApp \<Rightarrow> exn option \<times> 'i TrayApp" where
  "stop icon_stop self =
     (case icon_stop (tray_icon self) of
        (Some exc, i) \<Rightarrow> (None, self\<lparr>tray_icon := i\<rparr>)
      | (None, i) \<Rightarrow> (None, self\<lparr>tray_icon := i\<rparr>))"

section \<open>Notions the statements use\<close>

text \<open>
  The label a record would get if the first alias key present in it were taken, whatever
  its value: the reading of label resolution by presence, to compare with the normaliser.
\<close>

definition first_present_alias :: "(string \<times> pyval) list \<Rightarrow> pyval" where
  "first_present_alias d =
     (case map_of d ''text'' of
        Some v \<Rightarrow> v
      | None \<Rightarrow>
          (case map_of d ''label'' of
             Some v \<Rightarrow> v
           | None \<Rightarrow>
               (case map_of d ''title'' of
                  Some v \<Rightarrow> v
                | None \<Rightarrow> PStr ''Menu item'')))"

text \<open>
  A callback, or a handler, that returns whatever it is given, and one that ends the
  process with \<^verbatim>\<open>sys.exit()\<close> whatever it is given.
\<close>

definition always_returns :: "'a \<Rightarrow> outcome" where
  "always_returns x = Returns"

definition always_exits :: "'a \<Rightarrow> outcome" where
  "always_exits x = Raises SystemExit"

text \<open>
  A menu description whose records use only the keys \<^verbatim>\<open>text\<close>, \<^verbatim>\<open>action\<close>,
  \<^verbatim>\<open>disabled\<close>, \<^verbatim>\<open>checked\<close> and \<^verbatim>\<open>items\<close>, at every depth.
\<close>

fun only_plain_keys :: "pyval \<Rightarrow> bool" where
  "only_plain_keys (PList xs) = list_all only_plain_keys xs"
| "only_plain_keys (PDict d) =
     list_all (\<lambda>kv. fst kv \<in> set [''text'', ''action'', ''disabled'', ''checked'', ''items'']
                    \<and> only_plain_keys (snd kv)) d"
| "only_plain_keys _ = True"

text \<open>A node tree with truthy labels and no icon, at every depth.\<close>

fun plain_node :: "MenuNode \<Rightarrow> bool" where
  "plain_node (MenuNode t a dis chk kids ic) =
     (truthy t \<and> ic = PNone \<and> list_all plain_node kids)"

section \<open>The normaliser: labels\<close>

lemma normalise_loop_nth:
  "normalise_loop xs = Inr ns \<Longrightarrow>
     length ns = length xs \<and> (\<forall>i<length xs. normalise_item (xs ! i) = Inr (ns ! i))"
proof (induction xs arbitrary: ns)
  case Nil
  then show ?case by simp
next
  case (Cons x xs)
  from Cons.prems obtain n ns' where n: "normalise_item x = Inr n"
    and l: "normalise_loop xs = Inr ns'" and e: "ns = n # ns'"
    by (auto split: sum.splits)
  from Cons.IH [OF l] n show ?case
    unfolding e by (auto simp: nth_Cons split: nat.splits)
qed

lemma normalise_menu_list: "normalise_menu (PList xs) = normalise_loop xs"
  by (cases xs) (simp_all add: py_or_def)

lemma normalise_item_label:
  "normalise_item (PDict d) = Inr n \<Longrightarrow>
     label_text n = py_or (dict_get d ''text'')
              (py_or (dict_get d ''label'')
                (py_or (dict_get d ''title'') (PStr ''Menu item'')))"
  by (auto simp: Let_def split: sum.splits)

text \<open>
  C2, as stated: the label is the value of the first alias among \<^verbatim>\<open>text\<close>, \<^verbatim>\<open>label\<close>,
  \<^verbatim>\<open>title\<close> that is present in the record, and the placeholder is used only when none
  is present. This fails: the chain of \<^verbatim>\<open>or\<close> passes over an alias that is present with
  a falsy value. The record \<^verbatim>\<open>{"text": "", "label": "L"}\<close> gets the label \<^verbatim>\<open>L\<close>, not
  the value of its first present alias, and the record \<^verbatim>\<open>{"text": ""}\<close> gets the
  placeholder although an alias is present.
\<close>

theorem first_present_alias_counterexample:
  "normalise_menu (PList [PDict [(''text'', PStr ''''), (''label'', PStr ''L'')]])
     = Inr [MenuNode (PStr ''L'') PNone False False [] PNone]
   \<and> first_present_alias [(''text'', PStr ''''), (''label'', PStr ''L'')] = PStr ''''
   \<and> normalise_menu (PList [PDict [(''text'', PStr '''')]])
     = Inr [MenuNode (PStr ''Menu item'') PNone False False [] PNone]
   \<and> first_present_alias [(''text'', PStr '''')] = PStr ''''"
  by (simp add: py_or_def dict_get_def dict_get_default_def first_present_alias_def)

text \<open>
  C2, amended: for every record of a menu description that normalises, the label of its
  node is the value of the first alias among \<^verbatim>\<open>text\<close>, \<^verbatim>\<open>label\<close>, \<^verbatim>\<open>title\<close> whose
  value is truthy, and the placeholder \<^verbatim>\<open>Menu item\<close> when none of the three has a truthy
  value (the key is absent, or its value is \<^verbatim>\<open>None\<close>, empty, zero or false). Nested
  records are normalised by the same function, so the statement holds for them too.
\<close>

theorem label_resolution:
  assumes "normalise_menu (PList items) = Inr nodes"
    and "i < length items"
    and "items ! i = PDict d"
  shows "length nodes = length items \<and>
    label_text (nodes ! i) =
      (if truthy (dict_get d ''text'') then dict_get d ''text''
       else if truthy (dict_get d ''label'') then dict_get d ''label''
       else if truthy (dict_get d ''title'') then dict_get d ''title''
       else PStr ''Menu item'')"
proof -
  from assms(1) have l: "normalise_loop items = Inr nodes"
    by (simp only: normalise_menu_list)
  from normalise_loop_nth [OF l] assms(2,3)
  have len: "length nodes = length items"
    and it: "normalise_item (PDict d) = Inr (nodes ! i)"
    by auto
  from normalise_item_label [OF it] len show ?thesis
    by (simp add: py_or_def)
qed

theorem label_resolution_witness:
  "normalise_menu
     (PList [PDict [(''title'', PStr ''T'')],
             PDict [(''label'', PStr ''L''), (''title'', PStr ''T''), (''text'', PNone)]])
     = Inr [MenuNode (PStr ''T'') PNone False False [] PNone,
            MenuNode (PStr ''L'') PNone False False [] PNone]
   \<and> (1::nat) < length [PDict [(''title'', PStr ''T'')],
                        PDict [(''label'', PStr ''L''), (''title'', PStr ''T''), (''text'', PNone)]]
   \<and> label_text ([MenuNode (PStr ''T'') PNone False False [] PNone,
                  MenuNode (PStr ''L'') PNone False False [] PNone] ! 1) = PStr ''L''"
proof -
  let ?d = "[(''label'', PStr ''L''), (''title'', PStr ''T''), (''text'', PNone)]"
  let ?items = "[PDict [(''title'', PStr ''T'')], PDict ?d]"
  let ?nodes = "[MenuNode (PStr ''T'') PNone False False [] PNone,
                 MenuNode (PStr ''L'') PNone False False [] PNone]"
  have n: "normalise_menu (PList ?items) = Inr ?nodes"
    by (simp add: py_or_def dict_get_def dict_get_default_def)
  have i: "(1::nat) < length ?items" by simp
  have d: "?items ! 1 = PDict ?d" by simp
  from label_resolution [OF n i d] n i show ?thesis
    by (simp add: dict_get_def dict_get_default_def)
qed

section \<open>The normaliser and the emitter: the round trip\<close>

lemma plain_dict_get:
  "only_plain_keys (PDict d) \<Longrightarrow> only_plain_keys (dict_get d k)"
  by (induction d) (auto simp: dict_get_def dict_get_default_def)

lemma plain_dict_no_icon:
  "only_plain_keys (PDict d) \<Longrightarrow> dict_get d ''icon'' = PNone"
  by (induction d) (auto simp: dict_get_def dict_get_default_def)

lemma label_truthy: "truthy (py_or a (py_or b (py_or c (PStr ''Menu item''))))"
  by (simp add: py_or_def)

lemma plain_py_iter:
  "only_plain_keys v \<Longrightarrow> py_iter (py_or v (PList [])) = Inr xs \<Longrightarrow> list_all only_plain_keys xs"
  by (cases v) (auto simp: py_or_def list_all_iff split: if_splits)

text \<open>What the normaliser makes of a description with plain keys is a plain tree.\<close>

lemma normalise_plain:
  "only_plain_keys items \<longrightarrow> (\<forall>ns. normalise_menu items = Inr ns \<longrightarrow> list_all plain_node ns)"
  "list_all only_plain_keys xs \<longrightarrow> (\<forall>ns. normalise_loop xs = Inr ns \<longrightarrow> list_all plain_node ns)"
  "only_plain_keys x \<longrightarrow> (\<forall>n. normalise_item x = Inr n \<longrightarrow> plain_node n)"
proof (induction items and xs and x rule: normalise_menu_normalise_loop_normalise_item.induct)
  case (1 items)
  show ?case
  proof (intro impI allI)
    fix ns
    assume p: "only_plain_keys items" and n: "normalise_menu items = Inr ns"
    from n obtain xs where it: "py_iter (py_or items (PList [])) = Inr xs"
      and lp: "normalise_loop xs = Inr ns"
      by (auto split: sum.splits)
    from p it have "list_all only_plain_keys xs" by (rule plain_py_iter)
    with 1 [OF it] lp show "list_all plain_node ns" by blast
  qed
next
  case 2
  show ?case by simp
next
  case (3 item rest)
  then show ?case by (auto split: sum.splits)
next
  case (4 d)
  show ?case
  proof (intro impI allI)
    fix n
    assume p: "only_plain_keys (PDict d)" and n: "normalise_item (PDict d) = Inr n"
    define cd where "cd = (if \<not> truthy (dict_get d ''items'') then dict_get d ''children''
                           else dict_get d ''items'')"
    have pc: "only_plain_keys (py_or cd (PList []))"
      using plain_dict_get [OF p] by (simp add: cd_def py_or_def)
    from n obtain kids where k: "normalise_menu (py_or cd (PList [])) = Inr kids"
      and nd: "n = MenuNode (py_or (dict_get d ''text'')
              (py_or (dict_get d ''label'')
                (py_or (dict_get d ''title'') (PStr ''Menu item''))))
                    (dict_get d ''action'')
                    (truthy (dict_get_default d ''disabled'' (PBool False)))
                    (truthy (dict_get_default d ''checked'' (PBool False)))
                    kids
                    (dict_get d ''icon'')"
      by (auto simp: cd_def Let_def split: sum.splits)
    have "list_all plain_node kids"
      using 4 [OF refl refl refl] pc k unfolding cd_def by blast
    then show "plain_node n"
      unfolding nd using plain_dict_no_icon [OF p] label_truthy by simp
  qed
qed simp_all

lemma iter_list: "py_iter (py_or (PList xs) (PList [])) = Inr xs"
  by (simp add: py_or_def)

text \<open>Normalising what the emitter makes of a plain tree gives the tree back.\<close>

lemma emit_normalise:
  "list_all plain_node ns \<Longrightarrow> normalise_loop (menu_to_dict ns) = Inr ns"
  "plain_node n \<Longrightarrow> normalise_item (node_data n) = Inr n"
proof (induction ns and n rule: menu_to_dict_node_data.induct)
  case 1
  show ?case by simp
next
  case (2 node rest)
  then show ?case by simp
next
  case (3 t a dis chk kids ic)
  show ?case
  proof (cases "kids = []")
    case True
    with 3 show ?thesis
      by (simp add: dict_get_def dict_get_default_def py_or_def)
  next
    case False
    then have ne: "menu_to_dict kids \<noteq> []" by (cases kids) simp_all
    from 3 False have "normalise_loop (menu_to_dict kids) = Inr kids" by simp
    with 3(2) False ne show ?thesis
      by (simp add: dict_get_def dict_get_default_def py_or_def)
  qed
qed

text \<open>
  C4: for every menu description whose records use only the keys \<^verbatim>\<open>text\<close>, \<^verbatim>\<open>action\<close>,
  \<^verbatim>\<open>disabled\<close>, \<^verbatim>\<open>checked\<close> and \<^verbatim>\<open>items\<close>, normalising it and emitting the result with
  \<^verbatim>\<open>menu_to_dict\<close> is a fixed point: normalising the emitted list gives the tree that the
  original description gave.
\<close>

theorem roundtrip_fixed_point:
  assumes "only_plain_keys input" and "normalise_menu input = Inr nodes"
  shows "normalise_menu (PList (menu_to_dict nodes)) = Inr nodes"
proof -
  have "list_all plain_node nodes"
    using normalise_plain(1) assms by blast
  then have "normalise_loop (menu_to_dict nodes) = Inr nodes"
    by (rule emit_normalise(1))
  then show ?thesis by (simp add: iter_list)
qed

theorem roundtrip_fixed_point_witness:
  "only_plain_keys
     (PList [PDict [(''text'', PStr ''File''),
                    (''items'', PList [PDict [(''text'', PStr ''Quit''), (''action'', PStr ''exit''),
                                              (''checked'', PBool True)]])],
             PDict [(''action'', PStr ''open''), (''disabled'', PInt 1)]])
   \<and> normalise_menu
     (PList [PDict [(''text'', PStr ''File''),
                    (''items'', PList [PDict [(''text'', PStr ''Quit''), (''action'', PStr ''exit''),
                                              (''checked'', PBool True)]])],
             PDict [(''action'', PStr ''open''), (''disabled'', PInt 1)]])
     = Inr [MenuNode (PStr ''File'') PNone False False
              [MenuNode (PStr ''Quit'') (PStr ''exit'') False True [] PNone] PNone,
            MenuNode (PStr ''Menu item'') (PStr ''open'') True False [] PNone]
   \<and> normalise_menu
     (PList (menu_to_dict
        [MenuNode (PStr ''File'') PNone False False
           [MenuNode (PStr ''Quit'') (PStr ''exit'') False True [] PNone] PNone,
         MenuNode (PStr ''Menu item'') (PStr ''open'') True False [] PNone]))
     = Inr [MenuNode (PStr ''File'') PNone False False
              [MenuNode (PStr ''Quit'') (PStr ''exit'') False True [] PNone] PNone,
            MenuNode (PStr ''Menu item'') (PStr ''open'') True False [] PNone]"
proof -
  let ?input = "PList [PDict [(''text'', PStr ''File''),
                    (''items'', PList [PDict [(''text'', PStr ''Quit''), (''action'', PStr ''exit''),
                                              (''checked'', PBool True)]])],
             PDict [(''action'', PStr ''open''), (''disabled'', PInt 1)]]"
  let ?nodes = "[MenuNode (PStr ''File'') PNone False False
              [MenuNode (PStr ''Quit'') (PStr ''exit'') False True [] PNone] PNone,
            MenuNode (PStr ''Menu item'') (PStr ''open'') True False [] PNone]"
  have p: "only_plain_keys ?input" by simp
  have n: "normalise_menu ?input = Inr ?nodes"
    by (simp add: py_or_def dict_get_def dict_get_default_def)
  from roundtrip_fixed_point [OF p n] p n show ?thesis by (intro conjI)
qed

section \<open>The native menu builder: items\<close>

text \<open>The loop reads the list it runs over only through the last element's \<open>checked\<close>.\<close>

lemma build_loop_frame:
  "checked (last f1) = checked (last f2) \<Longrightarrow> build_loop ACTIONS f1 xs = build_loop ACTIONS f2 xs"
proof (induction xs)
  case Nil
  show ?case by simp
next
  case (Cons x xs)
  then show ?case by (cases x) (simp split: sum.splits)
qed

text \<open>The item built at each position of the loop.\<close>

lemma build_loop_nth:
  assumes "build_loop ACTIONS f xs = Inr menu_items"
  shows "length menu_items = length xs \<and>
    (\<forall>i<length xs. \<forall>t a dis chk kids ic. xs ! i = MenuNode t a dis chk kids ic \<longrightarrow>
       (kids \<noteq> [] \<longrightarrow>
          (\<exists>submenu. build_pystray_menu ACTIONS kids = Inr submenu
             \<and> menu_items ! i = MenuItem t (Submenu submenu) (\<not> dis) None False))
     \<and> (kids = [] \<longrightarrow>
          (\<exists>callback. actions_get ACTIONS (py_or a (PStr [])) = Inr callback
             \<and> menu_items ! i = MenuItem t (ActionCb callback a) (\<not> dis)
                  (if chk then Some (checked (last f)) else None) False)))"
  using assms
proof (induction xs arbitrary: menu_items)
  case Nil
  then show ?case by simp
next
  case (Cons x xs)
  obtain t a dis chk kids ic where x: "x = MenuNode t a dis chk kids ic" by (cases x)
  from Cons.prems obtain it its where r: "build_loop ACTIONS f xs = Inr its"
    and m: "menu_items = it # its"
    and h: "kids \<noteq> [] \<longrightarrow> (\<exists>submenu. build_pystray_menu ACTIONS kids = Inr submenu
             \<and> it = MenuItem t (Submenu submenu) (\<not> dis) None False)"
      "kids = [] \<longrightarrow> (\<exists>callback. actions_get ACTIONS (py_or a (PStr [])) = Inr callback
             \<and> it = MenuItem t (ActionCb callback a) (\<not> dis)
                  (if chk then Some (checked (last f)) else None) False)"
    unfolding x by (auto split: sum.splits if_splits)
  from Cons.IH [OF r] have len: "length its = length xs"
    and ih: "\<And>i t a dis chk kids ic. i < length xs \<Longrightarrow> xs ! i = MenuNode t a dis chk kids ic \<Longrightarrow>
       (kids \<noteq> [] \<longrightarrow>
          (\<exists>submenu. build_pystray_menu ACTIONS kids = Inr submenu
             \<and> its ! i = MenuItem t (Submenu submenu) (\<not> dis) None False))
     \<and> (kids = [] \<longrightarrow>
          (\<exists>callback. actions_get ACTIONS (py_or a (PStr [])) = Inr callback
             \<and> its ! i = MenuItem t (ActionCb callback a) (\<not> dis)
                  (if chk then Some (checked (last f)) else None) False))"
    by blast+
  show ?case
  proof (intro conjI allI impI)
    show "length menu_items = length (x # xs)" using len m by simp
  next
    fix i t' a' dis' chk' kids' ic'
    assume i: "i < length (x # xs)" and n: "(x # xs) ! i = MenuNode t' a' dis' chk' kids' ic'"
      and k: "kids' \<noteq> []"
    show "\<exists>submenu. build_pystray_menu ACTIONS kids' = Inr submenu
             \<and> menu_items ! i = MenuItem t' (Submenu submenu) (\<not> dis') None False"
    proof (cases i)
      case 0
      with n x h k m show ?thesis by simp
    next
      case (Suc j)
      with i n ih [of j t' a' dis' chk' kids' ic'] k m show ?thesis by simp
    qed
  next
    fix i t' a' dis' chk' kids' ic'
    assume i: "i < length (x # xs)" and n: "(x # xs) ! i = MenuNode t' a' dis' chk' kids' ic'"
      and k: "kids' = []"
    show "\<exists>callback. actions_get ACTIONS (py_or a' (PStr [])) = Inr callback
             \<and> menu_items ! i = MenuItem t' (ActionCb callback a') (\<not> dis')
                  (if chk' then Some (checked (last f)) else None) False"
    proof (cases i)
      case 0
      with n x h k m show ?thesis by simp
    next
      case (Suc j)
      with i n ih [of j t' a' dis' chk' kids' ic'] k m show ?thesis by simp
    qed
  qed
qed

text \<open>The action of a node with children has no part in what the loop builds.\<close>

lemma build_loop_update:
  "i < length xs \<Longrightarrow> xs ! i = MenuNode t a dis chk kids ic \<Longrightarrow> kids \<noteq> [] \<Longrightarrow>
     build_loop ACTIONS f (xs[i := MenuNode t a' dis chk kids ic]) = build_loop ACTIONS f xs"
proof (induction xs arbitrary: i)
  case Nil
  then show ?case by simp
next
  case (Cons x xs)
  show ?case
  proof (cases i)
    case 0
    with Cons.prems show ?thesis by simp
  next
    case (Suc j)
    with Cons.prems have ih: "build_loop ACTIONS f (xs[j := MenuNode t a' dis chk kids ic])
        = build_loop ACTIONS f xs"
      by (intro Cons.IH) simp_all
    show ?thesis unfolding Suc by (cases x) (simp add: ih split: sum.splits)
  qed
qed

lemma checked_last_update:
  "i < length xs \<Longrightarrow> xs ! i = MenuNode t a dis chk kids ic \<Longrightarrow>
     checked (last (xs[i := MenuNode t a' dis chk kids ic])) = checked (last xs)"
proof -
  assume i: "i < length xs" and n: "xs ! i = MenuNode t a dis chk kids ic"
  from i have ne: "xs \<noteq> []" by auto
  show ?thesis
  proof (cases "i = length xs - 1")
    case True
    with n ne have "checked (last xs) = chk" by (simp add: last_conv_nth)
    with True ne show ?thesis by (simp add: last_list_update)
  next
    case False
    with ne show ?thesis by (simp add: last_list_update)
  qed
qed

text \<open>
  C3: for every node with a non-empty list of children, the builder emits a submenu
  item and does not wire the node's own action. The item at the node's position holds
  the menu built from the children and no closure of its own, whatever the registry
  holds, and the built menu is the same whatever the node's action is, so nothing in
  it can dispatch that action on behalf of the node.
\<close>

theorem submenu_node_action_unwired:
  assumes "i < length nodes"
    and "nodes ! i = MenuNode t a dis chk kids ic"
    and "kids \<noteq> []"
  shows "build_pystray_menu ACTIONS (nodes[i := MenuNode t a' dis chk kids ic])
           = build_pystray_menu ACTIONS nodes
    \<and> (\<forall>menu_items. build_pystray_menu ACTIONS nodes = Inr menu_items \<longrightarrow>
          length menu_items = length nodes
          \<and> (\<exists>submenu. build_pystray_menu ACTIONS kids = Inr submenu
               \<and> menu_items ! i = MenuItem t (Submenu submenu) (\<not> dis) None False))"
proof (intro conjI allI impI)
  have "build_loop ACTIONS (nodes[i := MenuNode t a' dis chk kids ic])
          (nodes[i := MenuNode t a' dis chk kids ic])
        = build_loop ACTIONS nodes (nodes[i := MenuNode t a' dis chk kids ic])"
    using assms(1,2) by (intro build_loop_frame checked_last_update)
  also have "\<dots> = build_loop ACTIONS nodes nodes"
    using assms by (rule build_loop_update)
  finally show "build_pystray_menu ACTIONS (nodes[i := MenuNode t a' dis chk kids ic])
           = build_pystray_menu ACTIONS nodes"
    by simp
next
  fix menu_items
  assume "build_pystray_menu ACTIONS nodes = Inr menu_items"
  then have b: "build_loop ACTIONS nodes nodes = Inr menu_items" by simp
  from build_loop_nth [OF b] show "length menu_items = length nodes" by blast
  from build_loop_nth [OF b] assms
  show "\<exists>submenu. build_pystray_menu ACTIONS kids = Inr submenu
               \<and> menu_items ! i = MenuItem t (Submenu submenu) (\<not> dis) None False"
    by blast
qed

theorem submenu_node_action_unwired_witness:
  "(0::nat) < length [MenuNode (PStr ''File'') (PStr ''open'') False False
                       [MenuNode (PStr ''Quit'') (PStr ''exit'') False False [] PNone] PNone]
   \<and> [MenuNode (PStr ''Quit'') (PStr ''exit'') False False [] PNone] \<noteq> []
   \<and> build_pystray_menu
        (Map.empty(''open'' \<mapsto> Fn 1 (\<lambda>p. Returns), ''exit'' \<mapsto> Fn 2 (\<lambda>p. Returns)))
        ([MenuNode (PStr ''File'') (PStr ''open'') False False
            [MenuNode (PStr ''Quit'') (PStr ''exit'') False False [] PNone] PNone]
         [0 := MenuNode (PStr ''File'') (PList [PInt 7]) False False
            [MenuNode (PStr ''Quit'') (PStr ''exit'') False False [] PNone] PNone])
     = build_pystray_menu
        (Map.empty(''open'' \<mapsto> Fn 1 (\<lambda>p. Returns), ''exit'' \<mapsto> Fn 2 (\<lambda>p. Returns)))
        [MenuNode (PStr ''File'') (PStr ''open'') False False
            [MenuNode (PStr ''Quit'') (PStr ''exit'') False False [] PNone] PNone]
   \<and> build_pystray_menu
        (Map.empty(''open'' \<mapsto> Fn 1 (\<lambda>p. Returns), ''exit'' \<mapsto> Fn 2 (\<lambda>p. Returns)))
        [MenuNode (PStr ''File'') (PStr ''open'') False False
            [MenuNode (PStr ''Quit'') (PStr ''exit'') False False [] PNone] PNone]
     = Inr [MenuItem (PStr ''File'')
              (Submenu [MenuItem (PStr ''Quit'')
                          (ActionCb (Some (Fn 2 (\<lambda>p. Returns))) (PStr ''exit'')) True None False])
              True None False]"
proof -
  let ?kids = "[MenuNode (PStr ''Quit'') (PStr ''exit'') False False [] PNone]"
  let ?nodes = "[MenuNode (PStr ''File'') (PStr ''open'') False False ?kids PNone]"
  let ?A = "Map.empty(''open'' \<mapsto> Fn 1 (\<lambda>p. Returns), ''exit'' \<mapsto> Fn 2 (\<lambda>p. Returns))"
  have i: "(0::nat) < length ?nodes" by simp
  have n: "?nodes ! 0 = MenuNode (PStr ''File'') (PStr ''open'') False False ?kids PNone" by simp
  have k: "?kids \<noteq> []" by simp
  have b: "build_pystray_menu ?A ?nodes
     = Inr [MenuItem (PStr ''File'')
              (Submenu [MenuItem (PStr ''Quit'')
                          (ActionCb (Some (Fn 2 (\<lambda>p. Returns))) (PStr ''exit'')) True None False])
              True None False]"
    by (simp add: py_or_def)
  from submenu_node_action_unwired [where ACTIONS = ?A and a' = "PList [PInt 7]", OF i n k] i k b
  show ?thesis by (intro conjI) blast+
qed

text \<open>
  C5 says that the checked state a leaf item exposes is its own node's \<open>checked\<close> value
  at build time. The function passed as \<^verbatim>\<open>checked\<close> reads the loop variable when it is
  called, so a checked node followed by an unchecked last sibling is exposed as
  unchecked: for the nodes \<^verbatim>\<open>A\<close> (checked) and \<^verbatim>\<open>B\<close> (unchecked) the item of \<^verbatim>\<open>A\<close>
  reports \<open>False\<close>. The closure \<^verbatim>\<open>_cb\<close> beside it binds its values with default
  arguments; the \<^verbatim>\<open>checked\<close> function does not.
\<close>

theorem checked_state_reads_last_sibling:
  "build_pystray_menu Map.empty
     [MenuNode (PStr ''A'') PNone False True [] PNone,
      MenuNode (PStr ''B'') PNone False False [] PNone]
     = Inr [MenuItem (PStr ''A'') (ActionCb None PNone) True (Some False) False,
            MenuItem (PStr ''B'') (ActionCb None PNone) True None False]
   \<and> checked_state (MenuItem (PStr ''A'') (ActionCb None PNone) True (Some False) False)
     = Some False
   \<and> checked (MenuNode (PStr ''A'') PNone False True [] PNone) = True"
  by (simp add: py_or_def checked_state_def)

section \<open>Dispatch\<close>

lemma register_action_dom: "dom ACTIONS \<subseteq> dom (register_action name fn ACTIONS)"
  by (cases fn) auto

lemma run_cb_Some:
  "run_cb (Some fn) name trace =
     (case cb_outcome fn (PDict [(''action'', name)]) of
        Returns \<Rightarrow> (None, trace @ [Called fn (PDict [(''action'', name)])])
      | Raises r \<Rightarrow>
          (case r of
             Exc x \<Rightarrow> (None, trace @ [Called fn (PDict [(''action'', name)]),
                                       Printed (ActionFailed name x)])
           | SystemExit \<Rightarrow> (Some SystemExit, trace @ [Called fn (PDict [(''action'', name)])])
           | KeyboardInterrupt \<Rightarrow>
               (Some KeyboardInterrupt, trace @ [Called fn (PDict [(''action'', name)])])))"
  by (simp add: run_cb_def invoke_def split: outcome.splits raised.splits)

lemma run_cb_None: "run_cb None name trace = (None, trace @ [Printed (NoHandler name)])"
  by (simp add: run_cb_def)

lemma run_cb_frame:
  "run_cb fn name trace = (fst (run_cb fn name []), trace @ snd (run_cb fn name []))"
  by (cases fn) (simp_all add: run_cb_Some run_cb_None split: outcome.splits raised.splits)

lemma forward_swallowing_result:
  "forward_swallowing prev_handler e trace =
     (case prev_handler of
        None \<Rightarrow> (None, trace)
      | Some h \<Rightarrow>
          (case h_run h e of
             Returns \<Rightarrow> None
           | Raises r \<Rightarrow>
               (case r of
                  Exc x \<Rightarrow> None
                | SystemExit \<Rightarrow> Some SystemExit
                | KeyboardInterrupt \<Rightarrow> Some KeyboardInterrupt),
           trace @ [Forwarded h e]))"
  by (simp add: forward_swallowing_def invoke_handler_def
      split: option.splits outcome.splits raised.splits)

text \<open>The handler on an event of this bridge whose action name is a string.\<close>

lemma handle_ext_dispatch:
  assumes "\<not> foreign_event e" and "ext_action_name json_loads e = PStr name"
  shows "handle_ext json_loads ACTIONS prev_handler e trace =
     (case ACTIONS name of
        None \<Rightarrow> forward_swallowing prev_handler e trace
      | Some fn \<Rightarrow>
          (case cb_outcome fn (ext_payload json_loads e) of
             Returns \<Rightarrow>
               forward_swallowing prev_handler e (trace @ [Called fn (ext_payload json_loads e)])
           | Raises r \<Rightarrow>
               (case r of
                  Exc x \<Rightarrow>
                    forward_swallowing prev_handler e
                      (trace @ [Called fn (ext_payload json_loads e),
                                Printed (ExtHandlerFailed (PStr name) x)])
                | SystemExit \<Rightarrow>
                    (Some SystemExit, trace @ [Called fn (ext_payload json_loads e)])
                | KeyboardInterrupt \<Rightarrow>
                    (Some KeyboardInterrupt, trace @ [Called fn (ext_payload json_loads e)]))))"
proof -
  have k: "py_or (PStr name) (PStr []) = PStr name"
    by (simp add: py_or_def)
  show ?thesis
    using assms
    by (simp add: handle_ext_def k invoke_def
        split: option.splits outcome.splits raised.splits)
qed

lemma handle_ext_foreign:
  assumes "foreign_event e"
  shows "handle_ext json_loads ACTIONS prev_handler e trace =
     (case prev_handler of
        None \<Rightarrow> (None, trace)
      | Some h \<Rightarrow>
          (case h_run h e of Returns \<Rightarrow> None | Raises x \<Rightarrow> Some x, trace @ [Forwarded h e]))"
  using assms
  by (simp add: handle_ext_def invoke_handler_def split: option.splits outcome.splits)

lemma except_Exception_Some:
  "except_Exception (Some r, t) handler =
     (case r of
        Exc x \<Rightarrow> (None, t @ handler x)
      | SystemExit \<Rightarrow> (Some SystemExit, t)
      | KeyboardInterrupt \<Rightarrow> (Some KeyboardInterrupt, t))"
  by (cases r) simp_all

lemma handle_ext_frame:
  "handle_ext json_loads ACTIONS prev_handler e trace =
     (fst (handle_ext json_loads ACTIONS prev_handler e []),
      trace @ snd (handle_ext json_loads ACTIONS prev_handler e []))"
  by (simp add: handle_ext_def invoke_def invoke_handler_def forward_swallowing_result
      except_Exception_Some Let_def
      split: option.splits outcome.splits sum.splits raised.splits)

lemma leaf_item_closure:
  assumes "build_pystray_menu ACTIONS nodes = Inr menu_items"
    and "i < length nodes"
    and "nodes ! i = MenuNode t (PStr name) dis chk [] ic"
  shows "item_action (menu_items ! i) = ActionCb (ACTIONS name) (PStr name)"
proof -
  from assms(1) have b: "build_loop ACTIONS nodes nodes = Inr menu_items" by simp
  have k: "py_or (PStr name) (PStr []) = PStr name" by (simp add: py_or_def)
  from build_loop_nth [OF b] assms(2,3)
  obtain callback where "actions_get ACTIONS (py_or (PStr name) (PStr [])) = Inr callback"
    and "menu_items ! i = MenuItem t (ActionCb callback (PStr name)) (\<not> dis)
           (if chk then Some (checked (last nodes)) else None) False"
    by blast
  then show ?thesis by (simp add: k)
qed

text \<open>
  C1, as stated: for every action name and callback, registering and then dispatching
  the name, through a built menu item or through the extension event handler, invokes
  the most recently registered callback with a payload that maps \<^verbatim>\<open>action\<close> to the
  name. Three things in the code stand against it. \<^verbatim>\<open>register_action\<close> ignores the empty
  name, so nothing is registered and the menu item prints that there is no handler. The
  extension handler passes the event's data as the payload, here \<^verbatim>\<open>None\<close>, not a
  dictionary with the action. And a menu item built before the registration keeps the
  callback of build time: after \<^verbatim>\<open>f2\<close> replaces \<^verbatim>\<open>f1\<close> in the registry, the item built
  before still calls \<^verbatim>\<open>f1\<close>.
\<close>

theorem registered_callback_dispatched_counterexample:
  "build_pystray_menu (register_action [] (Callable (Fn 1 always_returns)) Map.empty)
       [MenuNode (PStr ''x'') (PStr []) False False [] PNone]
     = Inr [MenuItem (PStr ''x'') (ActionCb None (PStr [])) True None False]
   \<and> run_cb None (PStr []) [] = (None, [Printed (NoHandler (PStr []))])
   \<and> handle_ext Map.empty
        (register_action ''hello'' (Callable (Fn 1 always_returns)) Map.empty) None
        \<lparr>evt_extension_name = Some (PStr ''tray''), evt_name = Some (PStr ''hello''),
         evt_action = None, evt_data = None\<rparr> []
     = (None, [Called (Fn 1 always_returns) PNone])
   \<and> build_pystray_menu (register_action ''hello'' (Callable (Fn 1 always_returns)) Map.empty)
       [MenuNode (PStr ''Hi'') (PStr ''hello'') False False [] PNone]
     = Inr [MenuItem (PStr ''Hi'') (ActionCb (Some (Fn 1 always_returns)) (PStr ''hello''))
              True None False]
   \<and> register_action ''hello'' (Callable (Fn 2 always_returns))
        (register_action ''hello'' (Callable (Fn 1 always_returns)) Map.empty) ''hello''
     = Some (Fn 2 always_returns)
   \<and> run_cb (Some (Fn 1 always_returns)) (PStr ''hello'') []
     = (None, [Called (Fn 1 always_returns) (PDict [(''action'', PStr ''hello'')])])"
  by (simp add: always_returns_def py_or_def run_cb_def invoke_def handle_ext_def
      forward_swallowing_def foreign_event_def ext_action_name_def ext_payload_def
      getattr_or_none_def EXTENSION_NAME_def)

text \<open>
  C1, amended: for every non-empty action name and every callable, after the callable
  is registered under the name, (a) a menu built afterwards gives a leaf node with that
  action a closure bound to that callable, and running the closure invokes exactly that
  callable, once, with the payload \<^verbatim>\<open>{"action": name}\<close>; (b) the extension event handler,
  on an event of this bridge that resolves to the name, invokes exactly that callable,
  once, with the event's decoded data as the payload; (c) that payload maps
  \<^verbatim>\<open>action\<close> to the name when the name was taken from the payload. An earlier callback
  under the same name is not invoked. The statement gives the whole result of either
  dispatch for each thing the callable can do: return, raise an exception of class
  \<^verbatim>\<open>Exception\<close>, or exit.
\<close>

theorem registered_callback_dispatched:
  assumes "name \<noteq> []"
  shows
    "(build_pystray_menu (register_action name (Callable fn) ACTIONS) nodes = Inr menu_items
        \<and> i < length nodes \<and> nodes ! i = MenuNode t (PStr name) dis chk [] ic
      \<longrightarrow> item_action (menu_items ! i) = ActionCb (Some fn) (PStr name)
          \<and> run_cb (Some fn) (PStr name) trace =
              (case cb_outcome fn (PDict [(''action'', PStr name)]) of
                 Returns \<Rightarrow> (None, trace @ [Called fn (PDict [(''action'', PStr name)])])
               | Raises r \<Rightarrow>
                   (case r of
                      Exc x \<Rightarrow>
                        (None, trace @ [Called fn (PDict [(''action'', PStr name)]),
                                        Printed (ActionFailed (PStr name) x)])
                    | SystemExit \<Rightarrow>
                        (Some SystemExit, trace @ [Called fn (PDict [(''action'', PStr name)])])
                    | KeyboardInterrupt \<Rightarrow>
                        (Some KeyboardInterrupt,
                         trace @ [Called fn (PDict [(''action'', PStr name)])]))))
   \<and> (\<not> foreign_event e \<and> ext_action_name json_loads e = PStr name
      \<longrightarrow> handle_ext json_loads (register_action name (Callable fn) ACTIONS) prev_handler e trace =
            (case cb_outcome fn (ext_payload json_loads e) of
               Returns \<Rightarrow>
                 forward_swallowing prev_handler e
                   (trace @ [Called fn (ext_payload json_loads e)])
             | Raises r \<Rightarrow>
                 (case r of
                    Exc x \<Rightarrow>
                      forward_swallowing prev_handler e
                        (trace @ [Called fn (ext_payload json_loads e),
                                  Printed (ExtHandlerFailed (PStr name) x)])
                  | SystemExit \<Rightarrow>
                      (Some SystemExit, trace @ [Called fn (ext_payload json_loads e)])
                  | KeyboardInterrupt \<Rightarrow>
                      (Some KeyboardInterrupt, trace @ [Called fn (ext_payload json_loads e)]))))
   \<and> forward_swallowing prev_handler e trace =
       (case prev_handler of
          None \<Rightarrow> (None, trace)
        | Some h \<Rightarrow>
            (case h_run h e of
               Returns \<Rightarrow> None
             | Raises r \<Rightarrow>
                 (case r of
                    Exc x \<Rightarrow> None
                  | SystemExit \<Rightarrow> Some SystemExit
                  | KeyboardInterrupt \<Rightarrow> Some KeyboardInterrupt),
             trace @ [Forwarded h e]))
   \<and> (\<not> truthy (py_or (getattr_or_none (evt_name e)) (getattr_or_none (evt_action e)))
        \<and> ext_payload json_loads e = PDict d \<and> ext_action_name json_loads e = PStr name
      \<longrightarrow> dict_get d ''action'' = PStr name)"
proof -
  have menu: "item_action (menu_items ! i) = ActionCb (Some fn) (PStr name)"
    if a: "build_pystray_menu (register_action name (Callable fn) ACTIONS) nodes = Inr menu_items
        \<and> i < length nodes \<and> nodes ! i = MenuNode t (PStr name) dis chk [] ic"
  proof -
    from a have a1: "build_pystray_menu (register_action name (Callable fn) ACTIONS) nodes
        = Inr menu_items"
      and a2: "i < length nodes"
      and a3: "nodes ! i = MenuNode t (PStr name) dis chk [] ic"
      by blast+
    have "item_action (menu_items ! i)
      = ActionCb (register_action name (Callable fn) ACTIONS name) (PStr name)"
      using a1 a2 a3 by (rule leaf_item_closure)
    with assms show ?thesis by simp
  qed
  have ext: "handle_ext json_loads (register_action name (Callable fn) ACTIONS) prev_handler e trace =
            (case cb_outcome fn (ext_payload json_loads e) of
               Returns \<Rightarrow>
                 forward_swallowing prev_handler e
                   (trace @ [Called fn (ext_payload json_loads e)])
             | Raises r \<Rightarrow>
                 (case r of
                    Exc x \<Rightarrow>
                      forward_swallowing prev_handler e
                        (trace @ [Called fn (ext_payload json_loads e),
                                  Printed (ExtHandlerFailed (PStr name) x)])
                  | SystemExit \<Rightarrow>
                      (Some SystemExit, trace @ [Called fn (ext_payload json_loads e)])
                  | KeyboardInterrupt \<Rightarrow>
                      (Some KeyboardInterrupt, trace @ [Called fn (ext_payload json_loads e)])))"
    if b: "\<not> foreign_event e \<and> ext_action_name json_loads e = PStr name"
  proof -
    from b have f: "\<not> foreign_event e" and n: "ext_action_name json_loads e = PStr name"
      by simp_all
    show ?thesis
      unfolding handle_ext_dispatch [OF f n] using assms by simp
  qed
  have pay: "dict_get d ''action'' = PStr name"
    if "\<not> truthy (py_or (getattr_or_none (evt_name e)) (getattr_or_none (evt_action e)))
        \<and> ext_payload json_loads e = PDict d \<and> ext_action_name json_loads e = PStr name"
    using that by (auto simp: ext_action_name_def Let_def)
  from menu ext pay run_cb_Some [of fn "PStr name" trace]
    forward_swallowing_result [of prev_handler e trace]
  show ?thesis by blast
qed

theorem registered_callback_dispatched_witness:
  "''hello'' \<noteq> []
   \<and> item_action
       ([MenuItem (PStr ''Hi'') (ActionCb (Some (Fn 2 (\<lambda>p. Returns))) (PStr ''hello''))
           True None False] ! 0)
     = ActionCb (Some (Fn 2 (\<lambda>p. Returns))) (PStr ''hello'')
   \<and> run_cb (Some (Fn 2 (\<lambda>p. Returns))) (PStr ''hello'') []
     = (None, [Called (Fn 2 (\<lambda>p. Returns)) (PDict [(''action'', PStr ''hello'')])])
   \<and> handle_ext (\<lambda>s. None)
        (register_action ''hello'' (Callable (Fn 2 (\<lambda>p. Returns)))
           (Map.empty(''hello'' \<mapsto> Fn 1 (\<lambda>p. Returns))))
        None
        \<lparr>evt_extension_name = None, evt_name = None, evt_action = None,
         evt_data = Some (PDict [(''action'', PStr ''hello'')])\<rparr> []
     = (None, [Called (Fn 2 (\<lambda>p. Returns)) (PDict [(''action'', PStr ''hello'')])])
   \<and> dict_get [(''action'', PStr ''hello'')] ''action'' = PStr ''hello''"
proof -
  let ?f = "Fn 2 (\<lambda>p. Returns)"
  let ?A = "Map.empty(''hello'' \<mapsto> Fn 1 (\<lambda>p. Returns))"
  let ?nodes = "[MenuNode (PStr ''Hi'') (PStr ''hello'') False False [] PNone]"
  let ?items = "[MenuItem (PStr ''Hi'') (ActionCb (Some ?f) (PStr ''hello'')) True None False]"
  let ?e = "\<lparr>evt_extension_name = None, evt_name = None, evt_action = None,
         evt_data = Some (PDict [(''action'', PStr ''hello'')])\<rparr>"
  have n: "''hello'' \<noteq> []" by simp
  have b: "build_pystray_menu (register_action ''hello'' (Callable ?f) ?A) ?nodes = Inr ?items"
    by (simp add: py_or_def)
  have i: "(0::nat) < length ?nodes"
    and x: "?nodes ! 0 = MenuNode (PStr ''Hi'') (PStr ''hello'') False False [] PNone"
    by simp_all
  have f: "\<not> foreign_event ?e"
    by (simp add: foreign_event_def getattr_or_none_def)
  have p: "ext_payload (\<lambda>s. None) ?e = PDict [(''action'', PStr ''hello'')]"
    by (simp add: ext_payload_def getattr_or_none_def)
  have a: "ext_action_name (\<lambda>s. None) ?e = PStr ''hello''"
    by (simp add: ext_action_name_def p getattr_or_none_def py_or_def dict_get_def
        dict_get_default_def)
  have t: "\<not> truthy (py_or (getattr_or_none (evt_name ?e)) (getattr_or_none (evt_action ?e)))"
    by (simp add: getattr_or_none_def py_or_def)
  from registered_callback_dispatched [OF n, where fn = ?f and ACTIONS = ?A and nodes = ?nodes
      and menu_items = ?items and i = 0 and t = "PStr ''Hi''" and dis = False and chk = False
      and ic = PNone and trace = "[]" and e = ?e and json_loads = "\<lambda>s. None"
      and prev_handler = None and d = "[(''action'', PStr ''hello'')]"]
    b i x f p a t n
  show ?thesis by (simp add: forward_swallowing_def)
qed

text \<open>
  C6, as stated: every event whose extension name is present and differs from the
  bridge's name goes to the previous handler only, and the registry is not consulted.
  The guard tests the truth value of the name, so an event whose extension name is the
  empty string (present, and different from \<^verbatim>\<open>tray\<close>) is dispatched: the registry is
  looked up and the registered callback runs before the previous handler.
\<close>

theorem foreign_event_forwarded_counterexample:
  "evt_extension_name
       \<lparr>evt_extension_name = Some (PStr []), evt_name = Some (PStr ''hello''),
        evt_action = None, evt_data = None\<rparr> = Some (PStr [])
   \<and> PStr [] \<noteq> PStr EXTENSION_NAME
   \<and> handle_ext Map.empty (Map.empty(''hello'' \<mapsto> Fn 1 always_returns))
        (Some (Handler 9 always_returns))
        \<lparr>evt_extension_name = Some (PStr []), evt_name = Some (PStr ''hello''),
         evt_action = None, evt_data = None\<rparr> []
     = (None, [Called (Fn 1 always_returns) PNone,
               Forwarded (Handler 9 always_returns)
                 \<lparr>evt_extension_name = Some (PStr []), evt_name = Some (PStr ''hello''),
                  evt_action = None, evt_data = None\<rparr>])"
  by (simp add: always_returns_def py_or_def invoke_def invoke_handler_def handle_ext_def
      forward_swallowing_def foreign_event_def ext_action_name_def ext_payload_def
      getattr_or_none_def EXTENSION_NAME_def)

text \<open>
  C6, amended: for every event whose extension name is truthy (present and not empty)
  and differs from the bridge's name, the previous handler, when there is a callable
  one, is invoked with the unmodified event and nothing else happens; the registry is
  not consulted, so the result is the same for every registry and every decoder. An
  exception of the previous handler is not caught on this path.
\<close>

theorem foreign_event_forwarded:
  assumes "foreign_event e"
  shows "handle_ext json_loads ACTIONS prev_handler e trace =
       (case prev_handler of
          None \<Rightarrow> (None, trace)
        | Some h \<Rightarrow>
            (case h_run h e of Returns \<Rightarrow> None | Raises x \<Rightarrow> Some x, trace @ [Forwarded h e]))
    \<and> handle_ext json_loads ACTIONS prev_handler e trace =
        handle_ext json_loads' ACTIONS' prev_handler e trace"
  by (simp add: handle_ext_foreign [OF assms])

theorem foreign_event_forwarded_witness:
  "foreign_event
     \<lparr>evt_extension_name = Some (PStr ''clipboard''), evt_name = Some (PStr ''hello''),
      evt_action = None, evt_data = None\<rparr>
   \<and> handle_ext (\<lambda>s. None) (Map.empty(''hello'' \<mapsto> Fn 1 (\<lambda>p. Returns)))
        (Some (Handler 9 (\<lambda>v. Returns)))
        \<lparr>evt_extension_name = Some (PStr ''clipboard''), evt_name = Some (PStr ''hello''),
         evt_action = None, evt_data = None\<rparr> []
     = (None, [Forwarded (Handler 9 (\<lambda>v. Returns))
                 \<lparr>evt_extension_name = Some (PStr ''clipboard''),
                  evt_name = Some (PStr ''hello''), evt_action = None, evt_data = None\<rparr>])"
proof -
  let ?e = "\<lparr>evt_extension_name = Some (PStr ''clipboard''), evt_name = Some (PStr ''hello''),
      evt_action = None, evt_data = None\<rparr>"
  have f: "foreign_event ?e"
    by (simp add: foreign_event_def getattr_or_none_def EXTENSION_NAME_def)
  from foreign_event_forwarded [OF f, where json_loads = "\<lambda>s. None"
      and ACTIONS = "Map.empty(''hello'' \<mapsto> Fn 1 (\<lambda>p. Returns))"
      and prev_handler = "Some (Handler 9 (\<lambda>v. Returns))" and trace = "[]"] f
  show ?thesis by simp
qed

text \<open>
  C7, as stated: dispatching a name that is not in the registry, from a menu item or
  from the extension event handler, raises nothing, calls nothing and is logged. The
  extension event handler has no branch for a missing callback: it prints nothing.
\<close>

theorem unregistered_action_noop_counterexample:
  "handle_ext Map.empty Map.empty None
     \<lparr>evt_extension_name = None, evt_name = Some (PStr ''ghost''),
      evt_action = None, evt_data = None\<rparr> []
   = (None, [])"
  by (simp add: py_or_def handle_ext_def forward_swallowing_def foreign_event_def
      ext_action_name_def ext_payload_def getattr_or_none_def)

text \<open>
  C7, amended: for every action name that is not in the registry at dispatch time,
  dispatching it raises no exception and invokes no callback. From a built menu item
  (the registry never loses a name, so the name was missing at build time too) the
  closure prints that the action has no registered handler. From the extension event
  handler nothing is printed: the event only goes on to the previous handler, if any,
  whose exceptions of class \<^verbatim>\<open>Exception\<close> are swallowed.
\<close>

theorem unregistered_action_noop:
  assumes "ACTIONS name = None"
  shows
    "(dom BUILT \<subseteq> dom ACTIONS
        \<and> build_pystray_menu BUILT nodes = Inr menu_items
        \<and> i < length nodes \<and> nodes ! i = MenuNode t (PStr name) dis chk [] ic
      \<longrightarrow> item_action (menu_items ! i) = ActionCb None (PStr name)
          \<and> run_cb None (PStr name) trace = (None, trace @ [Printed (NoHandler (PStr name))]))
   \<and> (\<not> foreign_event e \<and> ext_action_name json_loads e = PStr name
      \<longrightarrow> handle_ext json_loads ACTIONS prev_handler e trace =
            (case prev_handler of
               None \<Rightarrow> (None, trace)
             | Some h \<Rightarrow>
                 (case h_run h e of
                    Returns \<Rightarrow> None
                  | Raises r \<Rightarrow>
                      (case r of
                         Exc x \<Rightarrow> None
                       | SystemExit \<Rightarrow> Some SystemExit
                       | KeyboardInterrupt \<Rightarrow> Some KeyboardInterrupt),
                  trace @ [Forwarded h e])))"
proof (intro conjI impI)
  assume a: "dom BUILT \<subseteq> dom ACTIONS
        \<and> build_pystray_menu BUILT nodes = Inr menu_items
        \<and> i < length nodes \<and> nodes ! i = MenuNode t (PStr name) dis chk [] ic"
  then have a1: "build_pystray_menu BUILT nodes = Inr menu_items"
    and a2: "i < length nodes"
    and a3: "nodes ! i = MenuNode t (PStr name) dis chk [] ic"
    and d: "dom BUILT \<subseteq> dom ACTIONS"
    by blast+
  from d assms have "BUILT name = None" by (auto simp: dom_def)
  with leaf_item_closure [OF a1 a2 a3]
  show "item_action (menu_items ! i) = ActionCb None (PStr name)" by simp
next
  show "run_cb None (PStr name) trace = (None, trace @ [Printed (NoHandler (PStr name))])"
    by (rule run_cb_None)
next
  assume "\<not> foreign_event e \<and> ext_action_name json_loads e = PStr name"
  then have f: "\<not> foreign_event e" and n: "ext_action_name json_loads e = PStr name"
    by simp_all
  show "handle_ext json_loads ACTIONS prev_handler e trace =
            (case prev_handler of
               None \<Rightarrow> (None, trace)
             | Some h \<Rightarrow>
                 (case h_run h e of
                    Returns \<Rightarrow> None
                  | Raises r \<Rightarrow>
                      (case r of
                         Exc x \<Rightarrow> None
                       | SystemExit \<Rightarrow> Some SystemExit
                       | KeyboardInterrupt \<Rightarrow> Some KeyboardInterrupt),
                  trace @ [Forwarded h e]))"
    unfolding handle_ext_dispatch [OF f n] using assms
    by (simp add: forward_swallowing_result)
qed

theorem unregistered_action_noop_witness:
  "(Map.empty(''open'' \<mapsto> Fn 1 (\<lambda>p. Returns))) ''ghost'' = None
   \<and> dom (Map.empty :: registry) \<subseteq> dom (Map.empty(''open'' \<mapsto> Fn 1 (\<lambda>p. Returns)))
   \<and> item_action ([MenuItem (PStr ''Boo'') (ActionCb None (PStr ''ghost'')) True None False] ! 0)
     = ActionCb None (PStr ''ghost'')
   \<and> run_cb None (PStr ''ghost'') [] = (None, [Printed (NoHandler (PStr ''ghost''))])
   \<and> handle_ext (\<lambda>s. None) (Map.empty(''open'' \<mapsto> Fn 1 (\<lambda>p. Returns)))
        (Some (Handler 9 (\<lambda>v. Raises (Exc (Exception ''boom'')))))
        \<lparr>evt_extension_name = Some (PStr ''tray''), evt_name = None,
         evt_action = Some (PStr ''ghost''), evt_data = None\<rparr> []
     = (None, [Forwarded (Handler 9 (\<lambda>v. Raises (Exc (Exception ''boom''))))
                 \<lparr>evt_extension_name = Some (PStr ''tray''), evt_name = None,
                  evt_action = Some (PStr ''ghost''), evt_data = None\<rparr>])"
proof -
  let ?A = "Map.empty(''open'' \<mapsto> Fn 1 (\<lambda>p. Returns))"
  let ?nodes = "[MenuNode (PStr ''Boo'') (PStr ''ghost'') False False [] PNone]"
  let ?items = "[MenuItem (PStr ''Boo'') (ActionCb None (PStr ''ghost'')) True None False]"
  let ?e = "\<lparr>evt_extension_name = Some (PStr ''tray''), evt_name = None,
         evt_action = Some (PStr ''ghost''), evt_data = None\<rparr>"
  have n: "?A ''ghost'' = None" by simp
  have d: "dom (Map.empty :: registry) \<subseteq> dom ?A" by simp
  have b: "build_pystray_menu Map.empty ?nodes = Inr ?items"
    by (simp add: py_or_def)
  have i: "(0::nat) < length ?nodes"
    and x: "?nodes ! 0 = MenuNode (PStr ''Boo'') (PStr ''ghost'') False False [] PNone"
    by simp_all
  have f: "\<not> foreign_event ?e"
    by (simp add: foreign_event_def getattr_or_none_def EXTENSION_NAME_def)
  have a: "ext_action_name (\<lambda>s. None) ?e = PStr ''ghost''"
    by (simp add: ext_action_name_def ext_payload_def getattr_or_none_def py_or_def)
  from unregistered_action_noop [where ACTIONS = ?A and name = "''ghost''"
      and BUILT = Map.empty and nodes = ?nodes
      and menu_items = ?items and i = 0 and t = "PStr ''Boo''" and dis = False and chk = False
      and ic = PNone and trace = "[]" and e = ?e and json_loads = "\<lambda>s. None"
      and prev_handler = "Some (Handler 9 (\<lambda>v. Raises (Exc (Exception ''boom''))))", OF n]
    n d b i x f a
  show ?thesis by simp
qed

text \<open>
  C8, as stated: for every registered callback that raises when it is dispatched, the
  exception is caught at the dispatch boundary and the dispatch returns normally. Both
  boundaries are \<^verbatim>\<open>except Exception\<close>, which does not catch what derives from
  \<^verbatim>\<open>BaseException\<close> only. A callback registered for \<^verbatim>\<open>exit\<close> that calls \<^verbatim>\<open>sys.exit()\<close>
  raises \<^verbatim>\<open>SystemExit\<close>: it leaves the closure of the menu item, and it leaves the
  extension event handler before the previous handler is called; nothing is printed.
\<close>

theorem raising_callback_contained_counterexample:
  "cb_outcome (Fn 1 always_exits) (PDict [(''action'', PStr ''exit'')]) = Raises SystemExit
   \<and> run_cb (Some (Fn 1 always_exits)) (PStr ''exit'') []
     = (Some SystemExit, [Called (Fn 1 always_exits) (PDict [(''action'', PStr ''exit'')])])
   \<and> handle_ext Map.empty (Map.empty(''exit'' \<mapsto> Fn 1 always_exits))
        (Some (Handler 9 always_returns))
        \<lparr>evt_extension_name = None, evt_name = Some (PStr ''exit''),
         evt_action = None, evt_data = None\<rparr> []
     = (Some SystemExit, [Called (Fn 1 always_exits) PNone])"
  by (simp add: always_exits_def always_returns_def py_or_def run_cb_def invoke_def
      handle_ext_def foreign_event_def ext_action_name_def ext_payload_def
      getattr_or_none_def)

text \<open>
  C8, amended: for every registered callback that, when it is dispatched, raises an
  exception of class \<^verbatim>\<open>Exception\<close>, the exception is caught where the callback is
  called and printed with the action name, and the call of the callback does not break
  the dispatch: the closure of a menu item returns normally, and the extension event
  handler goes on to forward the event to the previous handler, swallowing an exception
  of class \<^verbatim>\<open>Exception\<close> from it. A dispatch adds its own events to whatever trace
  came before and depends on nothing else of it, so a dispatch that follows a failed one
  runs as it would have run alone. What a callback raises outside class \<^verbatim>\<open>Exception\<close>
  (\<^verbatim>\<open>SystemExit\<close>, \<^verbatim>\<open>KeyboardInterrupt\<close>) is not caught: it leaves the dispatch and
  reaches the caller.
\<close>

theorem raising_callback_contained:
  shows
    "(cb_outcome fn (PDict [(''action'', name)]) = Raises (Exc x)
      \<longrightarrow> run_cb (Some fn) name trace =
            (None, trace @ [Called fn (PDict [(''action'', name)]),
                            Printed (ActionFailed name x)]))
   \<and> (\<not> foreign_event e \<and> ext_action_name json_loads e = PStr key \<and> ACTIONS key = Some fn
        \<and> cb_outcome fn (ext_payload json_loads e) = Raises (Exc x)
      \<longrightarrow> handle_ext json_loads ACTIONS prev_handler e trace =
            forward_swallowing prev_handler e
              (trace @ [Called fn (ext_payload json_loads e),
                        Printed (ExtHandlerFailed (PStr key) x)]))
   \<and> forward_swallowing prev_handler e trace =
       (case prev_handler of
          None \<Rightarrow> (None, trace)
        | Some h \<Rightarrow>
            (case h_run h e of
               Returns \<Rightarrow> None
             | Raises r \<Rightarrow>
                 (case r of
                    Exc y \<Rightarrow> None
                  | SystemExit \<Rightarrow> Some SystemExit
                  | KeyboardInterrupt \<Rightarrow> Some KeyboardInterrupt),
             trace @ [Forwarded h e]))
   \<and> run_cb fn' name' trace = (fst (run_cb fn' name' []), trace @ snd (run_cb fn' name' []))
   \<and> handle_ext json_loads ACTIONS prev_handler e' trace =
       (fst (handle_ext json_loads ACTIONS prev_handler e' []),
        trace @ snd (handle_ext json_loads ACTIONS prev_handler e' []))
   \<and> (cb_outcome fn (PDict [(''action'', name)]) = Raises r \<and> (\<forall>y. r \<noteq> Exc y)
      \<longrightarrow> run_cb (Some fn) name trace =
            (Some r, trace @ [Called fn (PDict [(''action'', name)])]))
   \<and> (\<not> foreign_event e \<and> ext_action_name json_loads e = PStr key \<and> ACTIONS key = Some fn
        \<and> cb_outcome fn (ext_payload json_loads e) = Raises r \<and> (\<forall>y. r \<noteq> Exc y)
      \<longrightarrow> handle_ext json_loads ACTIONS prev_handler e trace =
            (Some r, trace @ [Called fn (ext_payload json_loads e)]))"
proof (intro conjI impI)
  assume "cb_outcome fn (PDict [(''action'', name)]) = Raises (Exc x)"
  then show "run_cb (Some fn) name trace =
            (None, trace @ [Called fn (PDict [(''action'', name)]),
                            Printed (ActionFailed name x)])"
    by (simp add: run_cb_Some)
next
  assume "\<not> foreign_event e \<and> ext_action_name json_loads e = PStr key \<and> ACTIONS key = Some fn
        \<and> cb_outcome fn (ext_payload json_loads e) = Raises (Exc x)"
  then have f: "\<not> foreign_event e" and n: "ext_action_name json_loads e = PStr key"
    and r: "ACTIONS key = Some fn" "cb_outcome fn (ext_payload json_loads e) = Raises (Exc x)"
    by simp_all
  show "handle_ext json_loads ACTIONS prev_handler e trace =
            forward_swallowing prev_handler e
              (trace @ [Called fn (ext_payload json_loads e),
                        Printed (ExtHandlerFailed (PStr key) x)])"
    unfolding handle_ext_dispatch [OF f n] using r by simp
next
  show "forward_swallowing prev_handler e trace =
       (case prev_handler of
          None \<Rightarrow> (None, trace)
        | Some h \<Rightarrow>
            (case h_run h e of
               Returns \<Rightarrow> None
             | Raises r \<Rightarrow>
                 (case r of
                    Exc y \<Rightarrow> None
                  | SystemExit \<Rightarrow> Some SystemExit
                  | KeyboardInterrupt \<Rightarrow> Some KeyboardInterrupt),
             trace @ [Forwarded h e]))"
    by (rule forward_swallowing_result)
next
  show "run_cb fn' name' trace = (fst (run_cb fn' name' []), trace @ snd (run_cb fn' name' []))"
    by (rule run_cb_frame)
next
  show "handle_ext json_loads ACTIONS prev_handler e' trace =
       (fst (handle_ext json_loads ACTIONS prev_handler e' []),
        trace @ snd (handle_ext json_loads ACTIONS prev_handler e' []))"
    by (rule handle_ext_frame)
next
  assume "cb_outcome fn (PDict [(''action'', name)]) = Raises r \<and> (\<forall>y. r \<noteq> Exc y)"
  then show "run_cb (Some fn) name trace =
            (Some r, trace @ [Called fn (PDict [(''action'', name)])])"
    by (cases r) (simp_all add: run_cb_Some)
next
  assume "\<not> foreign_event e \<and> ext_action_name json_loads e = PStr key \<and> ACTIONS key = Some fn
        \<and> cb_outcome fn (ext_payload json_loads e) = Raises r \<and> (\<forall>y. r \<noteq> Exc y)"
  then have f: "\<not> foreign_event e" and n: "ext_action_name json_loads e = PStr key"
    and a: "ACTIONS key = Some fn" "cb_outcome fn (ext_payload json_loads e) = Raises r"
    and ne: "\<forall>y. r \<noteq> Exc y"
    by simp_all
  show "handle_ext json_loads ACTIONS prev_handler e trace =
            (Some r, trace @ [Called fn (ext_payload json_loads e)])"
    unfolding handle_ext_dispatch [OF f n] using a ne by (cases r) simp_all
qed

theorem raising_callback_contained_witness:
  "cb_outcome (Fn 1 (\<lambda>p. Raises (Exc (Exception ''boom'')))) (PDict [(''action'', PStr ''bad'')])
     = Raises (Exc (Exception ''boom''))
   \<and> run_cb (Some (Fn 1 (\<lambda>p. Raises (Exc (Exception ''boom''))))) (PStr ''bad'') []
     = (None, [Called (Fn 1 (\<lambda>p. Raises (Exc (Exception ''boom''))))
                 (PDict [(''action'', PStr ''bad'')]),
               Printed (ActionFailed (PStr ''bad'') (Exception ''boom''))])
   \<and> handle_ext (\<lambda>s. None)
        (Map.empty(''bad'' \<mapsto> Fn 1 (\<lambda>p. Raises (Exc (Exception ''boom''))),
                   ''ok'' \<mapsto> Fn 2 (\<lambda>p. Returns)))
        None
        \<lparr>evt_extension_name = None, evt_name = Some (PStr ''bad''),
         evt_action = None, evt_data = Some (PInt 5)\<rparr> []
     = (None, [Called (Fn 1 (\<lambda>p. Raises (Exc (Exception ''boom'')))) (PInt 5),
               Printed (ExtHandlerFailed (PStr ''bad'') (Exception ''boom''))])
   \<and> run_cb (Some (Fn 2 (\<lambda>p. Returns))) (PStr ''ok'')
        [Called (Fn 1 (\<lambda>p. Raises (Exc (Exception ''boom''))))
           (PDict [(''action'', PStr ''bad'')]),
         Printed (ActionFailed (PStr ''bad'') (Exception ''boom''))]
     = (None, [Called (Fn 1 (\<lambda>p. Raises (Exc (Exception ''boom''))))
                 (PDict [(''action'', PStr ''bad'')]),
               Printed (ActionFailed (PStr ''bad'') (Exception ''boom'')),
               Called (Fn 2 (\<lambda>p. Returns)) (PDict [(''action'', PStr ''ok'')])])
   \<and> (\<forall>y. SystemExit \<noteq> Exc y)
   \<and> run_cb (Some (Fn 3 (\<lambda>p. Raises SystemExit))) (PStr ''exit'') []
     = (Some SystemExit,
        [Called (Fn 3 (\<lambda>p. Raises SystemExit)) (PDict [(''action'', PStr ''exit'')])])"
proof -
  let ?f = "Fn 1 (\<lambda>p. Raises (Exc (Exception ''boom'')))"
  let ?g = "Fn 2 (\<lambda>p. Returns)"
  let ?q = "Fn 3 (\<lambda>p. Raises SystemExit)"
  let ?A = "Map.empty(''bad'' \<mapsto> ?f, ''ok'' \<mapsto> ?g)"
  let ?e = "\<lparr>evt_extension_name = None, evt_name = Some (PStr ''bad''),
         evt_action = None, evt_data = Some (PInt 5)\<rparr>"
  let ?t = "[Called ?f (PDict [(''action'', PStr ''bad'')]),
         Printed (ActionFailed (PStr ''bad'') (Exception ''boom''))]"
  have c: "cb_outcome ?f (PDict [(''action'', PStr ''bad'')]) = Raises (Exc (Exception ''boom''))"
    by simp
  have f: "\<not> foreign_event ?e"
    by (simp add: foreign_event_def getattr_or_none_def)
  have p: "ext_payload (\<lambda>s. None) ?e = PInt 5"
    by (simp add: ext_payload_def getattr_or_none_def)
  have a: "ext_action_name (\<lambda>s. None) ?e = PStr ''bad''"
    by (simp add: ext_action_name_def p getattr_or_none_def py_or_def)
  have r: "?A ''bad'' = Some ?f" by simp
  have s: "run_cb (Some ?g) (PStr ''ok'') []
      = (None, [Called ?g (PDict [(''action'', PStr ''ok'')])])"
    by (simp add: run_cb_def invoke_def)
  have ne: "\<forall>y. SystemExit \<noteq> Exc y" by simp
  from raising_callback_contained [where fn = ?f and name = "PStr ''bad''"
      and x = "Exception ''boom''" and trace = "[]" and e = ?e and json_loads = "\<lambda>s. None"
      and key = "''bad''" and ACTIONS = ?A and prev_handler = None]
    c f p a r
  have 1: "run_cb (Some ?f) (PStr ''bad'') [] = (None, ?t)"
    and 2: "handle_ext (\<lambda>s. None) ?A None ?e []
      = (None, [Called ?f (PInt 5), Printed (ExtHandlerFailed (PStr ''bad'') (Exception ''boom''))])"
    by (simp_all add: forward_swallowing_def)
  from raising_callback_contained [where fn' = "Some ?g" and name' = "PStr ''ok''"
      and trace = ?t] s
  have 3: "run_cb (Some ?g) (PStr ''ok'') ?t
      = (None, ?t @ [Called ?g (PDict [(''action'', PStr ''ok'')])])"
    by simp
  from raising_callback_contained [where fn = ?q and name = "PStr ''exit''"
      and r = SystemExit and trace = "[]"] ne
  have 4: "run_cb (Some ?q) (PStr ''exit'') []
      = (Some SystemExit, [Called ?q (PDict [(''action'', PStr ''exit'')])])"
    by simp
  from c 1 2 3 4 ne show ?thesis by simp
qed

section \<open>The tray session: stop and construction\<close>

text \<open>
  C9: \<^verbatim>\<open>TrayApp.stop\<close> never raises, whatever the native \<^verbatim>\<open>icon.stop()\<close> does and in
  whatever state the native icon is, started or not: a first call returns normally, and
  so does a second call on the session the first one left.
\<close>

theorem stop_never_raises:
  "fst (stop icon_stop self) = None
   \<and> fst (stop icon_stop (snd (stop icon_stop self))) = None"
  by (simp add: stop_def split: prod.splits option.splits)

lemma normalise_menu_absent:
  "normalise_menu (py_or PNone (PList [])) = Inr []"
  "normalise_menu (py_or (PList []) (PList [])) = Inr []"
  by (simp_all add: py_or_def)

lemma build_default_menu:
  "build_pystray_menu (ACTIONS(''open'' \<mapsto> f, ''exit'' \<mapsto> g))
     [MenuNode (PStr ''Open'') (PStr ''open'') False False [] PNone,
      MenuNode (PStr ''Exit'') (PStr ''exit'') False False [] PNone]
   = Inr [MenuItem (PStr ''Open'') (ActionCb (Some f) (PStr ''open'')) True None False,
          MenuItem (PStr ''Exit'') (ActionCb (Some g) (PStr ''exit'')) True None False]"
  by (simp add: py_or_def)

text \<open>
  C10, as stated: every construction of a \<^verbatim>\<open>TrayApp\<close>, regardless of the menu supplied,
  registers callbacks under \<^verbatim>\<open>open\<close> and \<^verbatim>\<open>exit\<close>. The constructor normalises the menu
  before it registers anything, and the normaliser raises on a menu it cannot walk: for
  the menu \<^verbatim>\<open>[{"text": "ok", "items": 5}]\<close>, a list of dictionaries, iterating over
  \<^verbatim>\<open>5\<close> raises TypeError, the constructor is left, and the registry is as it was,
  here without an entry for \<^verbatim>\<open>open\<close>.
\<close>

theorem trayapp_init_defaults_counterexample:
  "fst (trayapp_init (Inr :: menu_item list \<Rightarrow> exn + menu_item list)
          (TrayCallback 1 Returns) (TrayCallback 2 Returns)
          (PList [PDict [(''text'', PStr ''ok''), (''items'', PInt 5)]]) Map.empty)
     = Inl TypeError
   \<and> snd (trayapp_init (Inr :: menu_item list \<Rightarrow> exn + menu_item list)
          (TrayCallback 1 Returns) (TrayCallback 2 Returns)
          (PList [PDict [(''text'', PStr ''ok''), (''items'', PInt 5)]]) Map.empty) ''open''
     = None"
  by (simp add: trayapp_init_def py_or_def dict_get_def dict_get_default_def)

text \<open>
  C10, amended: constructing a \<^verbatim>\<open>TrayApp\<close> with an absent or empty menu installs the
  default menu of two items, \<^verbatim>\<open>Open\<close> with the action \<^verbatim>\<open>open\<close> and \<^verbatim>\<open>Exit\<close> with the
  action \<^verbatim>\<open>exit\<close>, and hands the native constructor the two items built from it. Every
  construction whose menu the normaliser accepts without raising, whatever that menu is
  and whether or not the later steps raise, leaves the registry with the two wrappers
  of \<^verbatim>\<open>on_open\<close> and \<^verbatim>\<open>on_exit\<close> under the names \<^verbatim>\<open>open\<close> and \<^verbatim>\<open>exit\<close>, in place of
  whatever was registered under them, and every other name as it was.
\<close>

theorem trayapp_init_defaults:
  shows
    "(menu = PNone \<or> menu = PList [] \<longrightarrow>
        fst (trayapp_init new_icon open_cb exit_cb menu ACTIONS) =
          (case new_icon
                  [MenuItem (PStr ''Open'') (ActionCb (Some (SelfLambda open_cb)) (PStr ''open''))
                     True None False,
                   MenuItem (PStr ''Exit'') (ActionCb (Some (SelfLambda exit_cb)) (PStr ''exit''))
                     True None False] of
             Inl x \<Rightarrow> Inl x
           | Inr i \<Rightarrow>
               Inr \<lparr>menu_nodes =
                      [MenuNode (PStr ''Open'') (PStr ''open'') False False [] PNone,
                       MenuNode (PStr ''Exit'') (PStr ''exit'') False False [] PNone],
                    on_open = open_cb, on_exit = exit_cb, tray_icon = i\<rparr>))
   \<and> (normalise_menu (py_or menu (PList [])) = Inr nodes \<longrightarrow>
        snd (trayapp_init new_icon open_cb exit_cb menu ACTIONS) =
          ACTIONS(''open'' \<mapsto> SelfLambda open_cb, ''exit'' \<mapsto> SelfLambda exit_cb))"
proof (intro conjI impI)
  assume "menu = PNone \<or> menu = PList []"
  then have n: "normalise_menu (py_or menu (PList [])) = Inr []"
    using normalise_menu_absent by blast
  show "fst (trayapp_init new_icon open_cb exit_cb menu ACTIONS) =
          (case new_icon
                  [MenuItem (PStr ''Open'') (ActionCb (Some (SelfLambda open_cb)) (PStr ''open''))
                     True None False,
                   MenuItem (PStr ''Exit'') (ActionCb (Some (SelfLambda exit_cb)) (PStr ''exit''))
                     True None False] of
             Inl x \<Rightarrow> Inl x
           | Inr i \<Rightarrow>
               Inr \<lparr>menu_nodes =
                      [MenuNode (PStr ''Open'') (PStr ''open'') False False [] PNone,
                       MenuNode (PStr ''Exit'') (PStr ''exit'') False False [] PNone],
                    on_open = open_cb, on_exit = exit_cb, tray_icon = i\<rparr>)"
    unfolding trayapp_init_def n
    by (simp add: build_default_menu del: build_pystray_menu.simps split: sum.splits)
next
  assume n: "normalise_menu (py_or menu (PList [])) = Inr nodes"
  show "snd (trayapp_init new_icon open_cb exit_cb menu ACTIONS) =
          ACTIONS(''open'' \<mapsto> SelfLambda open_cb, ''exit'' \<mapsto> SelfLambda exit_cb)"
    unfolding trayapp_init_def n
    by (simp add: Let_def del: build_pystray_menu.simps split: sum.splits)
qed

theorem trayapp_init_defaults_witness:
  "fst (trayapp_init (\<lambda>m. Inr (length m)) (TrayCallback 1 Returns) (TrayCallback 2 Returns)
          PNone (Map.empty(''open'' \<mapsto> Fn 7 (\<lambda>p. Returns))))
     = Inr \<lparr>menu_nodes =
              [MenuNode (PStr ''Open'') (PStr ''open'') False False [] PNone,
               MenuNode (PStr ''Exit'') (PStr ''exit'') False False [] PNone],
            on_open = TrayCallback 1 Returns, on_exit = TrayCallback 2 Returns,
            tray_icon = 2\<rparr>
   \<and> normalise_menu (py_or (PList [PDict [(''text'', PStr ''Hi''), (''action'', PStr ''hello'')]])
        (PList []))
     = Inr [MenuNode (PStr ''Hi'') (PStr ''hello'') False False [] PNone]
   \<and> snd (trayapp_init (\<lambda>m. Inl (Exception ''no display'') :: exn + nat)
          (TrayCallback 1 Returns) (TrayCallback 2 Returns)
          (PList [PDict [(''text'', PStr ''Hi''), (''action'', PStr ''hello'')]])
          (Map.empty(''open'' \<mapsto> Fn 7 (\<lambda>p. Returns)))) ''open''
     = Some (SelfLambda (TrayCallback 1 Returns))"
proof -
  let ?A = "Map.empty(''open'' \<mapsto> Fn 7 (\<lambda>p. Returns))"
  let ?menu = "PList [PDict [(''text'', PStr ''Hi''), (''action'', PStr ''hello'')]]"
  let ?nodes = "[MenuNode (PStr ''Hi'') (PStr ''hello'') False False [] PNone]"
  have n: "normalise_menu (py_or ?menu (PList [])) = Inr ?nodes"
    by (simp add: py_or_def dict_get_def dict_get_default_def)
  from trayapp_init_defaults [where menu = PNone and new_icon = "\<lambda>m. Inr (length m)"
      and open_cb = "TrayCallback 1 Returns" and exit_cb = "TrayCallback 2 Returns"
      and ACTIONS = ?A]
  have 1: "fst (trayapp_init (\<lambda>m. Inr (length m)) (TrayCallback 1 Returns)
          (TrayCallback 2 Returns) PNone ?A)
     = Inr \<lparr>menu_nodes =
              [MenuNode (PStr ''Open'') (PStr ''open'') False False [] PNone,
               MenuNode (PStr ''Exit'') (PStr ''exit'') False False [] PNone],
            on_open = TrayCallback 1 Returns, on_exit = TrayCallback 2 Returns,
            tray_icon = 2\<rparr>"
    by simp
  from trayapp_init_defaults [where menu = ?menu and nodes = ?nodes
      and new_icon = "\<lambda>m. Inl (Exception ''no display'') :: exn + nat"
      and open_cb = "TrayCallback 1 Returns" and exit_cb = "TrayCallback 2 Returns"
      and ACTIONS = ?A] n
  have 2: "snd (trayapp_init (\<lambda>m. Inl (Exception ''no display'') :: exn + nat)
          (TrayCallback 1 Returns) (TrayCallback 2 Returns) ?menu ?A) ''open''
     = Some (SelfLambda (TrayCallback 1 Returns))"
    by simp
  from 1 n 2 show ?thesis by (intro conjI)
qed

end
